theory Spec2Isabelle
  imports Complex_Main
begin

section \<open>Numbers of the host language\<close>

text \<open>
  Every number of \<^verbatim>\<open>src/js/index.js\<close> is an IEEE double. The model keeps the three special
  values apart and idealises the finite ones to the reals (no rounding, no overflow).
  The zero of the model is the positive zero: the only divisors of the program are the
  constants 1.2 and 1.08 and a result of \<^verbatim>\<open>Math.hypot\<close>, which is never the negative zero.
\<close>

datatype jsnum = Fin real | PInf | NInf | NaN

fun isNaN :: "jsnum \<Rightarrow> bool" where
  "isNaN NaN = True"
| "isNaN _ = False"

fun jneg :: "jsnum \<Rightarrow> jsnum" where
  "jneg (Fin a) = Fin (- a)"
| "jneg PInf = NInf"
| "jneg NInf = PInf"
| "jneg NaN = NaN"

fun jadd :: "jsnum \<Rightarrow> jsnum \<Rightarrow> jsnum" where
  "jadd NaN _ = NaN"
| "jadd _ NaN = NaN"
| "jadd (Fin a) (Fin b) = Fin (a + b)"
| "jadd PInf NInf = NaN"
| "jadd NInf PInf = NaN"
| "jadd PInf _ = PInf"
| "jadd NInf _ = NInf"
| "jadd (Fin a) PInf = PInf"
| "jadd (Fin a) NInf = NInf"

definition jsub :: "jsnum \<Rightarrow> jsnum \<Rightarrow> jsnum" where
  "jsub a b = jadd a (jneg b)"

text \<open>The sign of a non-NaN number, with the zero counted as positive.\<close>

fun nonneg :: "jsnum \<Rightarrow> bool" where
  "nonneg (Fin a) = (0 \<le> a)"
| "nonneg PInf = True"
| "nonneg NInf = False"
| "nonneg NaN = False"

definition signed_inf :: "bool \<Rightarrow> jsnum" where
  "signed_inf pos = (if pos then PInf else NInf)"

fun jmul :: "jsnum \<Rightarrow> jsnum \<Rightarrow> jsnum" where
  "jmul NaN _ = NaN"
| "jmul _ NaN = NaN"
| "jmul (Fin a) (Fin b) = Fin (a * b)"
| "jmul (Fin a) b = (if a = 0 then NaN else signed_inf (nonneg (Fin a) = nonneg b))"
| "jmul a (Fin b) = (if b = 0 then NaN else signed_inf (nonneg a = nonneg (Fin b)))"
| "jmul a b = signed_inf (nonneg a = nonneg b)"

fun jdiv :: "jsnum \<Rightarrow> jsnum \<Rightarrow> jsnum" where
  "jdiv NaN _ = NaN"
| "jdiv _ NaN = NaN"
| "jdiv (Fin a) (Fin b) =
     (if b \<noteq> 0 then Fin (a / b)
      else if a = 0 then NaN
      else signed_inf (0 < a))"
| "jdiv (Fin a) _ = Fin 0"
| "jdiv a (Fin b) = signed_inf (nonneg a = nonneg (Fin b))"
| "jdiv _ _ = NaN"

text \<open>The comparisons \<^verbatim>\<open><=\<close> and \<^verbatim>\<open>>\<close>: false as soon as one side is NaN.\<close>

fun jle :: "jsnum \<Rightarrow> jsnum \<Rightarrow> bool" where
  "jle NaN _ = False"
| "jle _ NaN = False"
| "jle (Fin a) (Fin b) = (a \<le> b)"
| "jle NInf _ = True"
| "jle _ PInf = True"
| "jle _ _ = False"

definition jgt :: "jsnum \<Rightarrow> jsnum \<Rightarrow> bool" where
  "jgt a b = (\<not> isNaN a \<and> \<not> isNaN b \<and> \<not> jle a b)"

text \<open>\<^verbatim>\<open>Math.min\<close> and \<^verbatim>\<open>Math.max\<close> of two arguments: NaN as soon as one argument is NaN.\<close>

definition Math_min :: "jsnum \<Rightarrow> jsnum \<Rightarrow> jsnum" where
  "Math_min a b = (if isNaN a \<or> isNaN b then NaN else if jle a b then a else b)"

definition Math_max :: "jsnum \<Rightarrow> jsnum \<Rightarrow> jsnum" where
  "Math_max a b = (if isNaN a \<or> isNaN b then NaN else if jle a b then b else a)"

text \<open>\<^verbatim>\<open>Math.hypot\<close> of two arguments: an infinite argument wins over NaN.\<close>

fun Math_hypot :: "jsnum \<Rightarrow> jsnum \<Rightarrow> jsnum" where
  "Math_hypot (Fin a) (Fin b) = Fin (sqrt (a * a + b * b))"
| "Math_hypot PInf _ = PInf"
| "Math_hypot NInf _ = PInf"
| "Math_hypot _ PInf = PInf"
| "Math_hypot _ NInf = PInf"
| "Math_hypot _ _ = NaN"

section \<open>Strings\<close>

text \<open>
  Strings are \<^typ>\<open>string\<close>. \<^verbatim>\<open>String.prototype.trim\<close> and \<^verbatim>\<open>toLowerCase\<close> follow Unicode
  tables of the host and are parameters of the model (fields of \<open>host\<close> below).
\<close>

definition startsWith :: "string \<Rightarrow> string \<Rightarrow> bool" where
  "startsWith s p = (take (length p) s = p)"

fun str_includes :: "string \<Rightarrow> string \<Rightarrow> bool" where
  "str_includes [] p = (p = [])"
| "str_includes (c # s) p = (startsWith (c # s) p \<or> str_includes s p)"

text \<open>
  The regular expression \<^verbatim>\<open>/^on/i\<close>: without the unicode flag only the letters o, O and
  n, N canonicalise to the pattern's characters.
\<close>

fun test_on :: "string \<Rightarrow> bool" where
  "test_on (c # d # _) = ((c = CHR ''o'' \<or> c = CHR ''O'') \<and> (d = CHR ''n'' \<or> d = CHR ''N''))"
| "test_on _ = False"

text \<open>
  The ASCII lowercase of a string, which the DOM applies to the attribute names it is
  given for an HTML element of an HTML document.
\<close>

definition ascii_lowercase :: "string \<Rightarrow> string" where
  "ascii_lowercase s =
     map (\<lambda>c. case map_of (zip ''ABCDEFGHIJKLMNOPQRSTUVWXYZ'' ''abcdefghijklmnopqrstuvwxyz'') c of
                Some d \<Rightarrow> d
              | None \<Rightarrow> c) s"

section \<open>The document tree\<close>

text \<open>
  An attribute has a namespace, a namespace prefix, a local name and a value; its
  qualified name is the local name, preceded by the prefix and a colon when there is one.
\<close>

record attr =
  namespaceURI :: "string option"
  prefix :: "string option"
  localName :: string
  attr_value :: string

definition attr_name :: "attr \<Rightarrow> string" where
  "attr_name a = (case prefix a of None \<Rightarrow> localName a | Some p \<Rightarrow> p @ '':'' @ localName a)"

text \<open>
  A node is an element (namespace, local name, attributes in order, nodes below it in
  order) or any other node (text, comment, processing instruction), kept by its content.
  A document is the list of the children of the document node.

  The nodes below an element are its children, with one exception: for a \<open>template\<close>
  element of the XHTML namespace they are its template contents. The XML parser puts
  what the text has between the tags of such an element into the contents and leaves the
  element without children; \<^verbatim>\<open>querySelectorAll\<close> does not enter the contents, while
  \<^verbatim>\<open>importNode\<close> copies them and \<^verbatim>\<open>XMLSerializer\<close> prints them.
\<close>

datatype node =
    Element (elementNamespace: "string option") (tagName: string) (attributes: "attr list")
      (childNodes: "node list")
  | CharData string

type_synonym document = "node list"

definition xhtml :: string where
  "xhtml = ''http://www.w3.org/1999/xhtml''"

definition is_template :: "string option \<Rightarrow> string \<Rightarrow> bool" where
  "is_template ens n = (ens = Some xhtml \<and> n = ''template'')"

fun documentElement :: "document \<Rightarrow> node option" where
  "documentElement [] = None"
| "documentElement (Element ens n as cs # ns) = Some (Element ens n as cs)"
| "documentElement (CharData s # ns) = documentElement ns"

text \<open>
  \<^verbatim>\<open>querySelectorAll\<close> with a type selector: the descendant elements with that local name,
  in document order; the selector \<^verbatim>\<open>*\<close> matches every element. In an XML document the
  comparison is case-sensitive and ignores the namespace. Template contents are not
  descendants.
\<close>

definition matches :: "string \<Rightarrow> string \<Rightarrow> bool" where
  "matches sel n = (sel = ''*'' \<or> sel = n)"

fun querySelectorAll :: "string \<Rightarrow> node list \<Rightarrow> node list" where
  "querySelectorAll sel [] = []"
| "querySelectorAll sel (CharData s # ns) = querySelectorAll sel ns"
| "querySelectorAll sel (Element ens n as cs # ns) =
     (if matches sel n then [Element ens n as cs] else [])
       @ (if is_template ens n then [] else querySelectorAll sel cs)
       @ querySelectorAll sel ns"

definition querySelector :: "string \<Rightarrow> node list \<Rightarrow> node option" where
  "querySelector sel doc = (case querySelectorAll sel doc of [] \<Rightarrow> None | e # _ \<Rightarrow> Some e)"

subsection \<open>Attribute access\<close>

fun getAttribute :: "string \<Rightarrow> attr list \<Rightarrow> string option" where
  "getAttribute qn [] = None"
| "getAttribute qn (a # as) = (if attr_name a = qn then Some (attr_value a) else getAttribute qn as)"

fun getAttributeNS :: "string \<Rightarrow> string \<Rightarrow> attr list \<Rightarrow> string option" where
  "getAttributeNS ns lname [] = None"
| "getAttributeNS ns lname (a # as) =
     (if namespaceURI a = Some ns \<and> localName a = lname then Some (attr_value a)
      else getAttributeNS ns lname as)"

definition hasAttribute :: "string \<Rightarrow> attr list \<Rightarrow> bool" where
  "hasAttribute qn as = (getAttribute qn as \<noteq> None)"

text \<open>\<^verbatim>\<open>removeAttribute\<close> removes the first attribute with the qualified name.\<close>

fun removeAttribute :: "string \<Rightarrow> attr list \<Rightarrow> attr list" where
  "removeAttribute qn [] = []"
| "removeAttribute qn (a # as) = (if attr_name a = qn then as else a # removeAttribute qn as)"

text \<open>
  \<^verbatim>\<open>setAttribute\<close> changes the value of the first attribute with the qualified name, or
  appends a new attribute without namespace and prefix.
\<close>

fun setAttribute :: "string \<Rightarrow> string \<Rightarrow> attr list \<Rightarrow> attr list" where
  "setAttribute qn v [] = [\<lparr>namespaceURI = None, prefix = None, localName = qn, attr_value = v\<rparr>]"
| "setAttribute qn v (a # as) =
     (if attr_name a = qn then a\<lparr>attr_value := v\<rparr> # as else a # setAttribute qn v as)"

section \<open>The host\<close>

text \<open>
  What the program calls and does not define: string functions that follow Unicode tables,
  the XML parser and serializer, the number parser and printer, and the network. A fetch
  is rejected (network error, blocked by CORS), answers with a status that is not OK,
  fails while its body is read, or delivers its payload. The image fetches of one run of
  the inliner are numbered, so that two requests for one address may differ.

  The parser returns a document for every text. \<open>parserReportsError\<close> says whether it met
  an error in the text; the program cannot ask for it and only sees the document, in
  which the parser then embeds an error node.
\<close>

datatype fetch_outcome = Rejected | HttpNotOk nat | ReadFailed | Fetched string

record host =
  trim :: "string \<Rightarrow> string"
  toLowerCase :: "string \<Rightarrow> string"
  parseFromString :: "string \<Rightarrow> document"
  parserReportsError :: "string \<Rightarrow> bool"
  serializeToString :: "node \<Rightarrow> string"
  parseFloat :: "string \<Rightarrow> jsnum"
  numberToString :: "jsnum \<Rightarrow> string"
  fetchText :: "string \<Rightarrow> fetch_outcome"
  fetchDataUrl :: "nat \<Rightarrow> string \<Rightarrow> fetch_outcome"

section \<open>Sanitization\<close>

text \<open>
  \<^verbatim>\<open>doc.querySelectorAll(sel).forEach((n) => n.remove())\<close>: every element the selector
  matches leaves its parent, and its subtree goes with it. The selector matches nothing
  in template contents, which stay as they are.
\<close>

fun remove_all :: "string \<Rightarrow> node list \<Rightarrow> node list" where
  "remove_all sel [] = []"
| "remove_all sel (CharData s # ns) = CharData s # remove_all sel ns"
| "remove_all sel (Element ens n as cs # ns) =
     (if matches sel n then remove_all sel ns
      else Element ens n as (if is_template ens n then cs else remove_all sel cs)
             # remove_all sel ns)"

text \<open>The two tests of the inner loop of \<^verbatim>\<open>sanitizeSVGDocument\<close>.\<close>

definition on_name :: "attr \<Rightarrow> bool" where
  "on_name a = test_on (attr_name a)"

definition javascript_value :: "host \<Rightarrow> attr \<Rightarrow> bool" where
  "javascript_value h a =
     (attr_value a \<noteq> [] \<and> startsWith (toLowerCase h (trim h (attr_value a))) ''javascript:'')"

text \<open>
  The body of the inner loop, on the current attribute list \<open>cur\<close> of the element and one
  attribute \<open>a\<close> of the snapshot \<^verbatim>\<open>[...el.attributes]\<close>.
\<close>

definition sanitize_attr :: "host \<Rightarrow> attr list \<Rightarrow> attr \<Rightarrow> attr list" where
  "sanitize_attr h cur a =
     (let cur1 = (if on_name a then removeAttribute (attr_name a) cur else cur)
      in if javascript_value h a then removeAttribute (attr_name a) cur1 else cur1)"

definition sanitize_attributes :: "host \<Rightarrow> attr list \<Rightarrow> attr list" where
  "sanitize_attributes h as = foldl (sanitize_attr h) as as"

text \<open>
  The loop over \<^verbatim>\<open>doc.querySelectorAll("*")\<close>: every element but those in template
  contents.
\<close>

fun sanitize_all :: "host \<Rightarrow> node list \<Rightarrow> node list" where
  "sanitize_all h [] = []"
| "sanitize_all h (CharData s # ns) = CharData s # sanitize_all h ns"
| "sanitize_all h (Element ens n as cs # ns) =
     Element ens n (sanitize_attributes h as)
         (if is_template ens n then cs else sanitize_all h cs)
       # sanitize_all h ns"

definition sanitizeSVGDocument :: "host \<Rightarrow> document \<Rightarrow> document" where
  "sanitizeSVGDocument h doc =
     sanitize_all h (remove_all ''foreignObject'' (remove_all ''script'' doc))"

text \<open>
  What the specification says of the sanitizer, in one pass: an element named
  \<open>script\<close> or \<open>foreignObject\<close> goes, an attribute whose name starts with \<open>on\<close> or whose
  value starts with \<open>javascript:\<close> goes, everything else stays as it is and where it is.
  It says so of every element and attribute of the document, template contents included.
\<close>

definition unsafe_attr :: "host \<Rightarrow> attr \<Rightarrow> bool" where
  "unsafe_attr h a = (on_name a \<or> javascript_value h a)"

fun sanitized_spec :: "host \<Rightarrow> node list \<Rightarrow> node list" where
  "sanitized_spec h [] = []"
| "sanitized_spec h (CharData s # ns) = CharData s # sanitized_spec h ns"
| "sanitized_spec h (Element ens n as cs # ns) =
     (if n = ''script'' \<or> n = ''foreignObject'' then sanitized_spec h ns
      else Element ens n (filter (\<lambda>a. \<not> unsafe_attr h a) as) (sanitized_spec h cs)
             # sanitized_spec h ns)"

text \<open>A parsed document has no two attributes of one qualified name on an element.\<close>

fun well_formed :: "node list \<Rightarrow> bool" where
  "well_formed [] = True"
| "well_formed (CharData s # ns) = well_formed ns"
| "well_formed (Element ens n as cs # ns) =
     (distinct (map attr_name as) \<and> well_formed cs \<and> well_formed ns)"

text \<open>Every element of the document, template contents included.\<close>

fun all_elements :: "node list \<Rightarrow> node list" where
  "all_elements [] = []"
| "all_elements (CharData s # ns) = all_elements ns"
| "all_elements (Element ens n as cs # ns) =
     Element ens n as cs # all_elements cs @ all_elements ns"

text \<open>A document without template elements of the XHTML namespace.\<close>

fun no_template :: "node list \<Rightarrow> bool" where
  "no_template [] = True"
| "no_template (CharData s # ns) = no_template ns"
| "no_template (Element ens n as cs # ns) =
     (\<not> is_template ens n \<and> no_template cs \<and> no_template ns)"

section \<open>The viewer state\<close>

text \<open>
  The text of a status line and of an exception is in the host locale; the model names
  each text by what it says.
\<close>

datatype error =
    NotValidSVG \<comment> \<open>thrown by \<^verbatim>\<open>parseSVGText\<close>: parse failed, not a valid SVG\<close>
  | NetworkStatus nat \<comment> \<open>network error, with the status\<close>
  | FetchRejected \<comment> \<open>the rejection of \<^verbatim>\<open>fetch\<close>\<close>
  | BodyReadFailed \<comment> \<open>the rejection of \<^verbatim>\<open>res.text()\<close>\<close>
  | ImportNodeTypeError \<comment> \<open>\<^verbatim>\<open>document.importNode(null, true)\<close>\<close>

datatype message =
    Ready
  | Loaded
  | ParsingText
  | ParseFailed error
  | FetchingUrl
  | UrlLoadFailed error
  | NothingToDownload
  | DownloadReady
  | LoadAnSvgFirst
  | InliningImages
  | NoImageToInline
  | InlineAttemptDone
  | InlineFailed error

text \<open>The anchor of a pinch gesture, \<^verbatim>\<open>state._pinchStart\<close>.\<close>

record pinch =
  pinch_dist :: jsnum
  pinch_scale :: jsnum
  pinch_center :: "jsnum \<times> jsnum"

text \<open>
  The object \<^verbatim>\<open>state\<close> (its field \<^verbatim>\<open>viewBox\<close>, never read or written, is left out) and
  what the program writes of the page: the child of \<^verbatim>\<open>svgContainer\<close>, its inline
  \<^verbatim>\<open>display\<close> and \<^verbatim>\<open>transform\<close>, the \<^verbatim>\<open>display\<close> of the placeholder, the status line and the
  source area. The transform \<^verbatim>\<open>translate(tx px, ty px) scale(scale)\<close> is kept as its three
  numbers. \<^verbatim>\<open>state.pointers\<close> is a \<^verbatim>\<open>Map\<close>, which keeps its keys in insertion order.
\<close>

record state =
  scale :: jsnum
  tx :: jsnum
  ty :: jsnum
  minScale :: jsnum
  maxScale :: jsnum
  isPanning :: bool
  lastX :: jsnum
  lastY :: jsnum
  pointers :: "(int \<times> jsnum \<times> jsnum) list"
  svgElement :: "node option"
  pinchStart :: "pinch option"
  mounted :: "node list"
  containerDisplay :: "string option"
  transform :: "(jsnum \<times> jsnum \<times> jsnum) option"
  placeholderDisplay :: "string option"
  status :: message
  sourceArea :: string

definition initial_state :: state where
  "initial_state =
     \<lparr>scale = Fin 1, tx = Fin 0, ty = Fin 0, minScale = Fin (1 / 10), maxScale = Fin 20,
      isPanning = False, lastX = Fin 0, lastY = Fin 0, pointers = [], svgElement = None,
      pinchStart = None, mounted = [], containerDisplay = None, transform = None,
      placeholderDisplay = None, status = Ready, sourceArea = []\<rparr>"

definition setStatus :: "message \<Rightarrow> state \<Rightarrow> state" where
  "setStatus t st = st\<lparr>status := t\<rparr>"

fun map_set :: "int \<Rightarrow> jsnum \<times> jsnum \<Rightarrow> (int \<times> jsnum \<times> jsnum) list \<Rightarrow> (int \<times> jsnum \<times> jsnum) list"
  where
  "map_set k v [] = [(k, v)]"
| "map_set k v ((k', v') # m) = (if k' = k then (k, v) # m else (k', v') # map_set k v m)"

definition map_delete :: "int \<Rightarrow> (int \<times> jsnum \<times> jsnum) list \<Rightarrow> (int \<times> jsnum \<times> jsnum) list"
  where
  "map_delete k m = filter (\<lambda>p. fst p \<noteq> k) m"

section \<open>Parsing and rendering\<close>

definition parseSVGText :: "host \<Rightarrow> string \<Rightarrow> error + document" where
  "parseSVGText h text =
     (let doc = parseFromString h text
      in if querySelector ''parsererror'' doc \<noteq> None then Inl NotValidSVG else Inr doc)"

definition applyTransform :: "state \<Rightarrow> state" where
  "applyTransform st = st\<lparr>transform := Some (tx st, ty st, scale st)\<rparr>"

definition adjustFit :: "state \<Rightarrow> state" where
  "adjustFit st =
     (if svgElement st = None then st
      else applyTransform (st\<lparr>tx := Fin 0, ty := Fin 0, scale := Fin 1\<rparr>))"

text \<open>
  The page is an HTML document. For an element of the XHTML namespace in it,
  \<^verbatim>\<open>hasAttribute\<close>, \<^verbatim>\<open>getAttribute\<close> and \<^verbatim>\<open>setAttribute\<close> put the name they are given in ASCII
  lowercase first; for any other element, and for every element of a parsed document
  (an XML document), the name is taken as it is.
\<close>

definition page_name :: "string option \<Rightarrow> string \<Rightarrow> string" where
  "page_name ens qn = (if ens = Some xhtml then ascii_lowercase qn else qn)"

text \<open>
  \<^verbatim>\<open>renderSVGDocument\<close> returns the exception it ends with, if any, and the state it leaves.
  \<^verbatim>\<open>importNode(svg, true)\<close> is a deep copy into the page: what is done to \<open>imported\<close> is
  not done to \<open>svg\<close>, and \<open>svg\<close> is what \<^verbatim>\<open>state.svgElement\<close> and the source area hold.
\<close>

definition renderSVGDocument :: "host \<Rightarrow> document \<Rightarrow> state \<Rightarrow> error option \<times> state" where
  "renderSVGDocument h doc st =
     (let svg = documentElement doc;
          st1 = st\<lparr>scale := Fin 1, tx := Fin 0, ty := Fin 0, svgElement := svg,
                   mounted := [], containerDisplay := Some ''inline-block''\<rparr>
      in case svg of
           None \<Rightarrow> (Some ImportNodeTypeError, st1)
         | Some (CharData s) \<Rightarrow> (Some ImportNodeTypeError, st1)
         | Some (Element ens n as cs) \<Rightarrow>
             (let imported =
                    (if \<not> hasAttribute (page_name ens ''viewBox'') as then
                       (case (getAttribute (page_name ens ''width'') as,
                              getAttribute (page_name ens ''height'') as) of
                          (Some w, Some hh) \<Rightarrow>
                            (if w \<noteq> [] \<and> hh \<noteq> [] then
                               (let wi = parseFloat h w; hi = parseFloat h hh
                                in if \<not> isNaN wi \<and> \<not> isNaN hi then
                                     Element ens n
                                       (setAttribute (page_name ens ''viewBox'')
                                          (''0 0 '' @ numberToString h wi @ '' ''
                                             @ numberToString h hi) as) cs
                                   else Element ens n as cs)
                             else Element ens n as cs)
                        | _ \<Rightarrow> Element ens n as cs)
                     else Element ens n as cs);
                  st2 = st1\<lparr>mounted := [imported],
                            transform := Some (tx st1, ty st1, scale st1)\<rparr>;
                  st3 = adjustFit st2;
                  st4 = setStatus Loaded (st3\<lparr>placeholderDisplay := Some ''none''\<rparr>)
              in (None, st4\<lparr>sourceArea := serializeToString h (Element ens n as cs)\<rparr>)))"

text \<open>The pipeline every ingestion path ends in: parse, sanitize, render.\<close>

definition parse_sanitize_render :: "host \<Rightarrow> string \<Rightarrow> state \<Rightarrow> error option \<times> state" where
  "parse_sanitize_render h txt st =
     (case parseSVGText h txt of
        Inl e \<Rightarrow> (Some e, st)
      | Inr doc \<Rightarrow> renderSVGDocument h (sanitizeSVGDocument h doc) st)"

definition loadFromTextOrUrl :: "host \<Rightarrow> string \<Rightarrow> state \<Rightarrow> state" where
  "loadFromTextOrUrl h input st =
     (if startsWith input ''<svg'' \<or> str_includes input ''<svg'' then
        (case parse_sanitize_render h input (setStatus ParsingText st) of
           (Some e, st') \<Rightarrow> setStatus (ParseFailed e) st'
         | (None, st') \<Rightarrow> st')
      else
        (let st1 = setStatus FetchingUrl st
         in case fetchText h input of
              Rejected \<Rightarrow> setStatus (UrlLoadFailed FetchRejected) st1
            | HttpNotOk c \<Rightarrow> setStatus (UrlLoadFailed (NetworkStatus c)) st1
            | ReadFailed \<Rightarrow> setStatus (UrlLoadFailed BodyReadFailed) st1
            | Fetched txt \<Rightarrow>
                (case parse_sanitize_render h txt st1 of
                   (Some e, st') \<Rightarrow> setStatus (UrlLoadFailed e) st'
                 | (None, st') \<Rightarrow> st')))"

text \<open>
  The handler of the download button: the text of the file \<^verbatim>\<open>cleaned.svg\<close>, if there is
  one, and the state.
\<close>

definition downloadClean :: "host \<Rightarrow> state \<Rightarrow> string option \<times> state" where
  "downloadClean h st =
     (case svgElement st of
        None \<Rightarrow> (None, setStatus NothingToDownload st)
      | Some el \<Rightarrow> (Some (serializeToString h el), setStatus DownloadReady st))"

section \<open>Image inlining\<close>

definition xlink :: string where
  "xlink = ''http://www.w3.org/1999/xlink''"

text \<open>
  The constant \<open>href\<close> of the loop over the \<open>image\<close> elements:
  \<^verbatim>\<open>img.getAttribute("href") || img.getAttributeNS(xlink, "href")\<close>, where \<^verbatim>\<open>a || b\<close> is \<open>b\<close>
  when \<open>a\<close> is null or the empty string.
\<close>

definition image_href :: "attr list \<Rightarrow> string option" where
  "image_href as =
     (case getAttribute ''href'' as of
        None \<Rightarrow> getAttributeNS xlink ''href'' as
      | Some v \<Rightarrow> if v = [] then getAttributeNS xlink ''href'' as else Some v)"

text \<open>
  The body of the loop, on the attributes of one \<open>image\<close> element; \<open>k\<close> counts the fetches
  made so far. Whatever the \<^verbatim>\<open>try\<close> block throws (the rejection of \<^verbatim>\<open>fetch\<close>, a status
  that is not OK, the error of the reader) is caught and only logged.
\<close>

definition inline_image :: "host \<Rightarrow> nat \<Rightarrow> attr list \<Rightarrow> nat \<times> attr list" where
  "inline_image h k as =
     (case image_href as of
        None \<Rightarrow> (k, as)
      | Some u \<Rightarrow>
          if u = [] then (k, as)
          else if startsWith u ''data:'' then (k, as)
          else (case fetchDataUrl h k u of
                  Fetched dataUrl \<Rightarrow> (Suc k, setAttribute ''href'' dataUrl as)
                | _ \<Rightarrow> (Suc k, as)))"

text \<open>
  The loop \<^verbatim>\<open>for (const img of images)\<close> over \<^verbatim>\<open>doc.querySelectorAll("image")\<close>: the
  elements named \<open>image\<close> in document order, each changed in place; the selector does not
  reach into template contents.
\<close>

fun inline_images :: "host \<Rightarrow> nat \<Rightarrow> node list \<Rightarrow> nat \<times> node list" where
  "inline_images h k [] = (k, [])"
| "inline_images h k (CharData s # ns) =
     (let (k1, ns') = inline_images h k ns in (k1, CharData s # ns'))"
| "inline_images h k (Element ens n as cs # ns) =
     (let (k1, as') = (if n = ''image'' then inline_image h k as else (k, as));
          (k2, cs') = (if is_template ens n then (k1, cs) else inline_images h k1 cs);
          (k3, ns') = inline_images h k2 ns
      in (k3, Element ens n as' cs' # ns'))"

definition inlineImgs :: "host \<Rightarrow> state \<Rightarrow> state" where
  "inlineImgs h st =
     (case svgElement st of
        None \<Rightarrow> setStatus LoadAnSvgFirst st
      | Some el \<Rightarrow>
          (let st1 = setStatus InliningImages st
           in case parseSVGText h (serializeToString h el) of
                Inl e \<Rightarrow> setStatus (InlineFailed e) st1
              | Inr doc \<Rightarrow>
                  if querySelectorAll ''image'' doc = [] then setStatus NoImageToInline st1
                  else
                    (case renderSVGDocument h
                            (sanitizeSVGDocument h (snd (inline_images h 0 doc))) st1 of
                       (Some e, st2) \<Rightarrow> setStatus (InlineFailed e) st2
                     | (None, st2) \<Rightarrow> setStatus InlineAttemptDone st2)))"

section \<open>Zoom, pan and pinch\<close>

definition setScale :: "jsnum \<Rightarrow> state \<Rightarrow> state" where
  "setScale s st =
     applyTransform (st\<lparr>scale := Math_max (minScale st) (Math_min (maxScale st) s)\<rparr>)"

definition zoomIn :: "state \<Rightarrow> state" where
  "zoomIn st = setScale (jmul (scale st) (Fin (12 / 10))) st"

definition zoomOut :: "state \<Rightarrow> state" where
  "zoomOut st = setScale (jdiv (scale st) (Fin (12 / 10))) st"

definition keydown :: "string \<Rightarrow> state \<Rightarrow> state" where
  "keydown key st =
     (let st1 = (if key = ''+'' \<or> key = ''='' then setScale (jmul (scale st) (Fin (12 / 10))) st
                 else st)
      in if key = ''-'' then setScale (jdiv (scale st1) (Fin (12 / 10))) st1 else st1)"

definition pointerdown :: "int \<Rightarrow> jsnum \<Rightarrow> jsnum \<Rightarrow> state \<Rightarrow> state" where
  "pointerdown pid clientX clientY st =
     st\<lparr>pointers := map_set pid (clientX, clientY) (pointers st)\<rparr>"

text \<open>
  \<open>rl\<close> and \<open>rt\<close> are \<^verbatim>\<open>left\<close> and \<^verbatim>\<open>top\<close> of \<^verbatim>\<open>viewer.getBoundingClientRect()\<close> at the time of
  the event.
\<close>

definition pointermove :: "int \<Rightarrow> jsnum \<Rightarrow> jsnum \<Rightarrow> jsnum \<Rightarrow> jsnum \<Rightarrow> state \<Rightarrow> state" where
  "pointermove pid clientX clientY rl rt st =
     (if map_of (pointers st) pid = None then st
      else
        (let st1 = st\<lparr>pointers := map_set pid (clientX, clientY) (pointers st)\<rparr>
         in case map snd (pointers st1) of
              [p] \<Rightarrow>
                (if \<not> isPanning st1 then
                   st1\<lparr>isPanning := True, lastX := fst p, lastY := snd p\<rparr>
                 else
                   (let dx = jsub (fst p) (lastX st1);
                        dy = jsub (snd p) (lastY st1)
                    in applyTransform
                         (st1\<lparr>tx := jadd (tx st1) dx, ty := jadd (ty st1) dy,
                               lastX := fst p, lastY := snd p\<rparr>)))
            | [p0, p1] \<Rightarrow>
                (let curDist = Math_hypot (jsub (fst p1) (fst p0)) (jsub (snd p1) (snd p0))
                 in case pinchStart st1 of
                      None \<Rightarrow>
                        st1\<lparr>pinchStart :=
                              Some \<lparr>pinch_dist = curDist, pinch_scale = scale st1,
                                    pinch_center =
                                      (jdiv (jadd (fst p0) (fst p1)) (Fin 2),
                                       jdiv (jadd (snd p0) (snd p1)) (Fin 2))\<rparr>\<rparr>
                    | Some ps \<Rightarrow>
                        (let ratio = jdiv curDist (pinch_dist ps);
                             newScale =
                               Math_max (minScale st1)
                                 (Math_min (maxScale st1) (jmul (pinch_scale ps) ratio));
                             cx = jsub (fst (pinch_center ps)) rl;
                             cy = jsub (snd (pinch_center ps)) rt
                         in applyTransform
                              (st1\<lparr>tx := jsub (tx st1) (jmul cx (jsub newScale (scale st1))),
                                    ty := jsub (ty st1) (jmul cy (jsub newScale (scale st1))),
                                    scale := newScale\<rparr>)))
            | _ \<Rightarrow> st1))"

definition pointerup :: "int \<Rightarrow> state \<Rightarrow> state" where
  "pointerup pid st =
     st\<lparr>pointers := map_delete pid (pointers st), isPanning := False, pinchStart := None\<rparr>"

definition pointercancel :: "int \<Rightarrow> state \<Rightarrow> state" where
  "pointercancel pid st =
     st\<lparr>pointers := map_delete pid (pointers st), isPanning := False, pinchStart := None\<rparr>"

definition wheel :: "jsnum \<Rightarrow> jsnum \<Rightarrow> jsnum \<Rightarrow> jsnum \<Rightarrow> jsnum \<Rightarrow> state \<Rightarrow> state" where
  "wheel deltaY clientX clientY rl rt st =
     (let delta = jneg deltaY;
          factor = (if jgt delta (Fin 0) then Fin (108 / 100) else jdiv (Fin 1) (Fin (108 / 100)));
          mx = jsub clientX rl;
          my = jsub clientY rt;
          newScale = Math_max (minScale st) (Math_min (maxScale st) (jmul (scale st) factor))
      in applyTransform
           (st\<lparr>tx := jsub (tx st) (jmul mx (jsub newScale (scale st))),
               ty := jsub (ty st) (jmul my (jsub newScale (scale st))),
               scale := newScale\<rparr>))"

text \<open>The events of the viewer the claims speak of, and a run of them.\<close>

datatype event =
    PointerDown int jsnum jsnum
  | PointerMove int jsnum jsnum jsnum jsnum
  | PointerUp int
  | PointerCancel int
  | Wheel jsnum jsnum jsnum jsnum jsnum
  | KeyDown string
  | ZoomInClick
  | ZoomOutClick
  | FitViewClick

fun dispatch :: "state \<Rightarrow> event \<Rightarrow> state" where
  "dispatch st (PointerDown pid cx cy) = pointerdown pid cx cy st"
| "dispatch st (PointerMove pid cx cy rl rt) = pointermove pid cx cy rl rt st"
| "dispatch st (PointerUp pid) = pointerup pid st"
| "dispatch st (PointerCancel pid) = pointercancel pid st"
| "dispatch st (Wheel dy cx cy rl rt) = wheel dy cx cy rl rt st"
| "dispatch st (KeyDown key) = keydown key st"
| "dispatch st ZoomInClick = zoomIn st"
| "dispatch st ZoomOutClick = zoomOut st"
| "dispatch st FitViewClick = adjustFit st"

definition run :: "state \<Rightarrow> event list \<Rightarrow> state" where
  "run st evs = foldl dispatch st evs"

section \<open>Positions on the surface\<close>

text \<open>
  The meaning of the transform \<^verbatim>\<open>translate(tx px, ty px) scale(scale)\<close> that
  \<open>applyTransform\<close> writes: the content point \<open>p\<close>, in coordinates from the transform
  origin, is shown at \<open>org + t + scale * p\<close>, where \<open>org\<close> is the place of the transform
  origin on the surface, in the coordinates of the anchors (from the top left corner of
  the viewer). \<open>content_at\<close> is the inverse: the content point shown at a place.
\<close>

definition surface_pos :: "jsnum \<times> jsnum \<Rightarrow> state \<Rightarrow> jsnum \<times> jsnum \<Rightarrow> jsnum \<times> jsnum" where
  "surface_pos org st p =
     (jadd (jadd (fst org) (tx st)) (jmul (scale st) (fst p)),
      jadd (jadd (snd org) (ty st)) (jmul (scale st) (snd p)))"

definition content_at :: "jsnum \<times> jsnum \<Rightarrow> state \<Rightarrow> jsnum \<times> jsnum \<Rightarrow> jsnum \<times> jsnum" where
  "content_at org st a =
     (jdiv (jsub (jsub (fst a) (fst org)) (tx st)) (scale st),
      jdiv (jsub (jsub (snd a) (snd org)) (ty st)) (scale st))"

text \<open>The invariant of the view state, with the comparisons of the host.\<close>

definition scale_clamped :: "state \<Rightarrow> bool" where
  "scale_clamped st = (jle (minScale st) (scale st) \<and> jle (scale st) (maxScale st))"

section \<open>A concrete host and documents for the examples\<close>

text \<open>
  An instance of the host for the examples below: the string functions on ASCII, a
  serializer that prints every attribute under its qualified name (a namespace
  declaration is an attribute of the tree), a parser that knows the serializations of a
  given list of documents and reports an error on any other text, numbers read and
  printed in decimal for the natural numbers, and a network that holds one image.
\<close>

definition is_space :: "char \<Rightarrow> bool" where
  "is_space c = (c \<in> set [CHR '' '', CHR 0x09, CHR 0x0A, CHR 0x0B, CHR 0x0C, CHR 0x0D])"

definition ascii_trim :: "string \<Rightarrow> string" where
  "ascii_trim s = rev (dropWhile is_space (rev (dropWhile is_space s)))"

fun xml_of :: "node list \<Rightarrow> string" where
  "xml_of [] = []"
| "xml_of (CharData s # ns) = s @ xml_of ns"
| "xml_of (Element ens n as cs # ns) =
     ''<'' @ n
       @ concat (map (\<lambda>a. '' '' @ attr_name a @ ''='' @ [CHR 0x22] @ attr_value a @ [CHR 0x22]) as)
       @ (if cs = [] then ''/>'' else ''>'' @ xml_of cs @ ''</'' @ n @ ''>'')
       @ xml_of ns"

definition parse_known :: "document list \<Rightarrow> string \<Rightarrow> document" where
  "parse_known docs text =
     (case find (\<lambda>d. xml_of d = text) docs of
        Some d \<Rightarrow> d
      | None \<Rightarrow> [Element None ''parsererror'' [] [CharData text]])"

definition unknown_text :: "document list \<Rightarrow> string \<Rightarrow> bool" where
  "unknown_text docs text = (find (\<lambda>d. xml_of d = text) docs = None)"

definition digit_value :: "char \<Rightarrow> nat option" where
  "digit_value c = map_of (zip ''0123456789'' [0, 1, 2, 3, 4, 5, 6, 7, 8, 9]) c"

fun decimal_value :: "nat \<Rightarrow> string \<Rightarrow> nat" where
  "decimal_value n [] = n"
| "decimal_value n (c # s) =
     (case digit_value c of Some d \<Rightarrow> decimal_value (10 * n + d) s | None \<Rightarrow> n)"

definition decimal_parseFloat :: "string \<Rightarrow> jsnum" where
  "decimal_parseFloat s =
     (case s of
        [] \<Rightarrow> NaN
      | c # _ \<Rightarrow> if digit_value c = None then NaN else Fin (real (decimal_value 0 s)))"

fun decimal_digits :: "nat \<Rightarrow> string" where
  "decimal_digits n =
     (if n < 10 then [''0123456789'' ! n]
      else decimal_digits (n div 10) @ [''0123456789'' ! (n mod 10)])"

definition decimal_numberToString :: "jsnum \<Rightarrow> string" where
  "decimal_numberToString v =
     (case v of
        Fin r \<Rightarrow> if 0 \<le> r \<and> r = real (nat \<lfloor>r\<rfloor>) then decimal_digits (nat \<lfloor>r\<rfloor>) else []
      | PInf \<Rightarrow> ''Infinity''
      | NInf \<Rightarrow> ''-Infinity''
      | NaN \<Rightarrow> ''NaN'')"

definition one_image_net :: "nat \<Rightarrow> string \<Rightarrow> fetch_outcome" where
  "one_image_net k url =
     (if url = ''http://example.org/a.png'' then Fetched ''data:image/png;base64,iVBORw0KGgo=''
      else if url = ''http://example.org/gone.png'' then HttpNotOk 404
      else Rejected)"

definition sample_host :: "document list \<Rightarrow> host" where
  "sample_host docs =
     \<lparr>trim = ascii_trim, toLowerCase = ascii_lowercase, parseFromString = parse_known docs,
      parserReportsError = unknown_text docs,
      serializeToString = (\<lambda>e. xml_of [e]), parseFloat = decimal_parseFloat,
      numberToString = decimal_numberToString, fetchText = (\<lambda>url. Rejected),
      fetchDataUrl = one_image_net\<rparr>"

definition plain_attr :: "string \<Rightarrow> string \<Rightarrow> attr" where
  "plain_attr n v = \<lparr>namespaceURI = None, prefix = None, localName = n, attr_value = v\<rparr>"

definition xlink_href :: "string \<Rightarrow> attr" where
  "xlink_href v =
     \<lparr>namespaceURI = Some xlink, prefix = Some ''xlink'', localName = ''href'', attr_value = v\<rparr>"

text \<open>
  The document of
  \<^verbatim>\<open><svg onload="alert(1)"><script>alert(2)</script><rect width="10" height="10"/>\<close>
  \<^verbatim>\<open><foreignObject><div/></foreignObject><a href=" JavaScript:alert(3)" id="k"/></svg>\<close>.
\<close>

definition unsafe_doc :: document where
  "unsafe_doc =
     [Element None ''svg'' [plain_attr ''onload'' ''alert(1)'']
        [Element None ''script'' [] [CharData ''alert(2)''],
         Element None ''rect'' [plain_attr ''width'' ''10'', plain_attr ''height'' ''10''] [],
         Element None ''foreignObject'' [] [Element None ''div'' [] []],
         Element None ''a'' [plain_attr ''href'' '' JavaScript:alert(3)'', plain_attr ''id'' ''k''] []]]"

definition xmlns_attr :: "string \<Rightarrow> attr" where
  "xmlns_attr v =
     \<lparr>namespaceURI = Some ''http://www.w3.org/2000/xmlns/'', prefix = None,
      localName = ''xmlns'', attr_value = v\<rparr>"

text \<open>
  The document of
  \<^verbatim>\<open><svg><template xmlns="http://www.w3.org/1999/xhtml"><script>alert(1)</script>\<close>
  \<^verbatim>\<open><b onclick="x"/></template></svg>\<close>: the two elements between the tags of the template
  are its contents.
\<close>

definition template_text :: string where
  "template_text =
     ''<svg><template xmlns=\"http://www.w3.org/1999/xhtml\"><script>alert(1)</script>''
       @ ''<b onclick=\"x\"/></template></svg>''"

definition template_doc :: document where
  "template_doc =
     [Element None ''svg'' []
        [Element (Some xhtml) ''template'' [xmlns_attr xhtml]
           [Element (Some xhtml) ''script'' [] [CharData ''alert(1)''],
            Element (Some xhtml) ''b'' [plain_attr ''onclick'' ''x''] []]]]"

text \<open>The document of \<^verbatim>\<open><svg><parsererror/></svg>\<close>, a well-formed text.\<close>

definition error_named_text :: string where
  "error_named_text = ''<svg><parsererror/></svg>''"

definition error_named_doc :: document where
  "error_named_doc = [Element None ''svg'' [] [Element None ''parsererror'' [] []]]"

text \<open>The document of \<^verbatim>\<open><svg width="100px" height="12abc"/>\<close>.\<close>

definition unit_doc :: document where
  "unit_doc =
     [Element None ''svg'' [plain_attr ''width'' ''100px'', plain_attr ''height'' ''12abc''] []]"

text \<open>
  The document of
  \<^verbatim>\<open><svg xmlns="http://www.w3.org/1999/xhtml" viewBox="0 0 10 10" width="100" height="50"/>\<close>,
  whose root is in the XHTML namespace.
\<close>

definition xhtml_root_doc :: document where
  "xhtml_root_doc =
     [Element (Some xhtml) ''svg''
        [xmlns_attr xhtml, plain_attr ''viewBox'' ''0 0 10 10'', plain_attr ''width'' ''100'',
         plain_attr ''height'' ''50''] []]"

text \<open>The document of \<^verbatim>\<open><svg width="100" height="50"><circle r="5"/></svg>\<close>.\<close>

definition sized_doc :: document where
  "sized_doc =
     [Element None ''svg'' [plain_attr ''width'' ''100'', plain_attr ''height'' ''50'']
        [Element None ''circle'' [plain_attr ''r'' ''5''] []]]"

definition sized_text :: string where
  "sized_text = ''<svg width=\"100\" height=\"50\"><circle r=\"5\"/></svg>''"

definition sized_root :: node where
  "sized_root =
     Element None ''svg'' [plain_attr ''width'' ''100'', plain_attr ''height'' ''50'']
       [Element None ''circle'' [plain_attr ''r'' ''5''] []]"

text \<open>A view without a document, zoomed with the button and panned with one pointer.\<close>

definition zoomed_and_panned :: state where
  "zoomed_and_panned =
     run initial_state
       [ZoomInClick, PointerDown 1 (Fin 0) (Fin 0),
        PointerMove 1 (Fin 0) (Fin 0) (Fin 0) (Fin 0),
        PointerMove 1 (Fin 7) (Fin 3) (Fin 0) (Fin 0)]"

text \<open>
  A document with four images: one with an XLink reference only, one whose address
  answers 404, one that is inline already, one with a plain reference; and the same
  document after the inliner has run on the network above.
\<close>

definition xmlns_xlink :: attr where
  "xmlns_xlink =
     \<lparr>namespaceURI = Some ''http://www.w3.org/2000/xmlns/'', prefix = Some ''xmlns'',
      localName = ''xlink'', attr_value = xlink\<rparr>"

definition linked_doc :: document where
  "linked_doc =
     [Element None ''svg'' [xmlns_xlink]
        [Element None ''image'' [xlink_href ''http://example.org/a.png''] [],
         Element None ''image'' [plain_attr ''href'' ''http://example.org/gone.png''] [],
         Element None ''image'' [plain_attr ''href'' ''data:image/gif;base64,R0lGODlh''] [],
         Element None ''image'' [plain_attr ''href'' ''http://example.org/a.png''] []]]"

definition linked_root :: node where
  "linked_root =
     Element None ''svg'' [xmlns_xlink]
        [Element None ''image'' [xlink_href ''http://example.org/a.png''] [],
         Element None ''image'' [plain_attr ''href'' ''http://example.org/gone.png''] [],
         Element None ''image'' [plain_attr ''href'' ''data:image/gif;base64,R0lGODlh''] [],
         Element None ''image'' [plain_attr ''href'' ''http://example.org/a.png''] []]"

definition inlined_doc :: document where
  "inlined_doc =
     [Element None ''svg'' [xmlns_xlink]
        [Element None ''image''
           [xlink_href ''http://example.org/a.png'',
            plain_attr ''href'' ''data:image/png;base64,iVBORw0KGgo=''] [],
         Element None ''image'' [plain_attr ''href'' ''http://example.org/gone.png''] [],
         Element None ''image'' [plain_attr ''href'' ''data:image/gif;base64,R0lGODlh''] [],
         Element None ''image'' [plain_attr ''href'' ''data:image/png;base64,iVBORw0KGgo=''] []]]"

text \<open>
  Runs of events: the sized document loaded, then panned by 10 to the right with one
  pointer; then two pointers put down 100 apart and the first move of the second, which
  captures the pinch anchor; and two pointers put down and moved at one point.
\<close>

definition loaded :: state where
  "loaded = loadFromTextOrUrl (sample_host [sized_doc]) sized_text initial_state"

definition panned :: state where
  "panned =
     run loaded
       [PointerDown 1 (Fin 0) (Fin 0),
        PointerMove 1 (Fin 0) (Fin 0) (Fin 0) (Fin 0),
        PointerMove 1 (Fin 10) (Fin 0) (Fin 0) (Fin 0),
        PointerUp 1]"

definition pinch_captured :: state where
  "pinch_captured =
     run panned
       [PointerDown 1 (Fin 50) (Fin 0),
        PointerDown 2 (Fin 150) (Fin 0),
        PointerMove 2 (Fin 150) (Fin 0) (Fin 0) (Fin 0)]"

definition coincident_pinch :: "event list" where
  "coincident_pinch =
     [PointerDown 1 (Fin 5) (Fin 5),
      PointerDown 2 (Fin 5) (Fin 5),
      PointerMove 2 (Fin 5) (Fin 5) (Fin 0) (Fin 0),
      PointerMove 2 (Fin 5) (Fin 5) (Fin 0) (Fin 0)]"

definition crossing_pinch :: "event list" where
  "crossing_pinch =
     [PointerDown 1 (Fin 5) (Fin 5),
      PointerDown 2 (Fin 9) (Fin 5),
      PointerMove 2 (Fin 5) (Fin 5) (Fin 0) (Fin 0),
      PointerMove 1 (Fin 6) (Fin 5) (Fin 0) (Fin 0),
      PointerMove 2 (Fin 6) (Fin 5) (Fin 0) (Fin 0)]"

section \<open>Vocabulary of the claims\<close>

text \<open>
  An attribute with a number at the start of its value, as \<^verbatim>\<open>renderSVGDocument\<close> reads it:
  the attribute is there, its value is not empty, and \<^verbatim>\<open>parseFloat\<close> of the value is not
  NaN. The number is what \<^verbatim>\<open>parseFloat\<close> returns: it reads the longest prefix that is a
  number and ignores what follows, so that \<open>100px\<close> has the number 100.
\<close>

definition numeric_attr :: "host \<Rightarrow> string \<Rightarrow> attr list \<Rightarrow> jsnum option" where
  "numeric_attr h qn as =
     (case getAttribute qn as of
        None \<Rightarrow> None
      | Some v \<Rightarrow> if v = [] \<or> isNaN (parseFloat h v) then None else Some (parseFloat h v))"

text \<open>
  A numeric value in the plain sense of the word: the whole value is a decimal number,
  an optional sign and digits with at most one point.
\<close>

definition numeric_value :: "string \<Rightarrow> bool" where
  "numeric_value v =
     (let body = (case v of
                    [] \<Rightarrow> []
                  | c # r \<Rightarrow> if c = CHR ''+'' \<or> c = CHR ''-'' then r else v)
      in list_ex (\<lambda>c. digit_value c \<noteq> None) body
         \<and> list_all (\<lambda>c. digit_value c \<noteq> None \<or> c = CHR ''.'') body
         \<and> length (filter (\<lambda>c. c = CHR ''.'') body) \<le> 1)"

text \<open>
  An image the inliner has to fetch: its \<open>href\<close>, plain or XLink, is there, is not empty
  and does not start with \<open>data:\<close>.
\<close>

definition needs_fetch :: "attr list \<Rightarrow> bool" where
  "needs_fetch as =
     (case image_href as of None \<Rightarrow> False | Some u \<Rightarrow> u \<noteq> [] \<and> \<not> startsWith u ''data:'')"

text \<open>The bounds are the initial ones and the scale is within them or is NaN.\<close>

definition clamped_or_NaN :: "state \<Rightarrow> bool" where
  "clamped_or_NaN st =
     (minScale st = Fin (1 / 10) \<and> maxScale st = Fin 20
      \<and> (scale_clamped st \<or> isNaN (scale st)))"

section \<open>The sanitizer removes what it must and nothing else\<close>

lemma removeAttribute_filter:
  "distinct (map attr_name as) \<Longrightarrow>
   removeAttribute qn as = filter (\<lambda>b. attr_name b \<noteq> qn) as"
proof (induction as)
  case Nil
  then show ?case by simp
next
  case (Cons a as)
  show ?case
  proof (cases "attr_name a = qn")
    case True
    with Cons.prems have "\<forall>b \<in> set as. attr_name b \<noteq> qn"
      by (auto simp: image_iff)
    then have "filter (\<lambda>b. attr_name b \<noteq> qn) as = as"
      by (simp add: filter_id_conv)
    with True show ?thesis by simp
  next
    case False
    with Cons show ?thesis by simp
  qed
qed

lemma sanitize_attr_filter:
  "distinct (map attr_name cur) \<Longrightarrow>
   sanitize_attr h cur a =
     filter (\<lambda>b. \<not> (unsafe_attr h a \<and> attr_name b = attr_name a)) cur"
  by (auto simp: sanitize_attr_def Let_def unsafe_attr_def removeAttribute_filter
        distinct_map_filter intro: filter_cong)

lemma foldl_sanitize_attr:
  "distinct (map attr_name cur) \<Longrightarrow>
   foldl (sanitize_attr h) cur xs =
     filter (\<lambda>b. \<not> (\<exists>a \<in> set xs. unsafe_attr h a \<and> attr_name b = attr_name a)) cur"
proof (induction xs arbitrary: cur)
  case Nil
  then show ?case by simp
next
  case (Cons x xs)
  have d: "distinct (map attr_name (sanitize_attr h cur x))"
    using Cons.prems by (simp add: sanitize_attr_filter distinct_map_filter)
  show ?case
    using Cons.IH [OF d] Cons.prems
    by (auto simp: sanitize_attr_filter intro: filter_cong)
qed

lemma sanitize_attributes_filter:
  assumes "distinct (map attr_name as)"
  shows "sanitize_attributes h as = filter (\<lambda>a. \<not> unsafe_attr h a) as"
proof -
  have inj: "inj_on attr_name (set as)"
    using assms by (simp add: distinct_map)
  have "filter (\<lambda>b. \<not> (\<exists>a \<in> set as. unsafe_attr h a \<and> attr_name b = attr_name a)) as
      = filter (\<lambda>a. \<not> unsafe_attr h a) as"
  proof (rule filter_cong [OF refl])
    fix b assume b: "b \<in> set as"
    show "(\<not> (\<exists>a \<in> set as. unsafe_attr h a \<and> attr_name b = attr_name a))
        = (\<not> unsafe_attr h b)"
      using b inj by (auto dest: inj_onD)
  qed
  then show ?thesis
    using assms by (simp add: sanitize_attributes_def foldl_sanitize_attr)
qed

lemma sanitize_passes_fuse:
  "well_formed doc \<Longrightarrow> no_template doc \<Longrightarrow>
   sanitize_all h (remove_all ''foreignObject'' (remove_all ''script'' doc))
     = sanitized_spec h doc"
  by (induction h doc rule: sanitized_spec.induct)
     (auto simp: matches_def sanitize_attributes_filter)

lemma no_tag_sanitized_spec:
  "t = ''script'' \<or> t = ''foreignObject'' \<Longrightarrow> querySelectorAll t (sanitized_spec h doc) = []"
  by (induction h doc rule: sanitized_spec.induct) (auto simp: matches_def)

lemma safe_attrs_sanitized_spec:
  "e \<in> set (all_elements (sanitized_spec h doc)) \<Longrightarrow> a \<in> set (attributes e) \<Longrightarrow>
   \<not> unsafe_attr h a"
  by (induction h doc rule: sanitized_spec.induct) (auto split: if_splits)

lemma no_tag_all_elements_sanitized_spec:
  "e \<in> set (all_elements (sanitized_spec h doc)) \<Longrightarrow>
   tagName e \<noteq> ''script'' \<and> tagName e \<noteq> ''foreignObject''"
  by (induction h doc rule: sanitized_spec.induct) (auto split: if_splits)

text \<open>
  On a parsed document (no element has two attributes of one qualified name) without
  template elements of the XHTML namespace, the sanitizer does what claim C1 says: it
  leaves no element named \<open>script\<close> or \<open>foreignObject\<close>, no attribute whose name starts
  with \<open>on\<close> in any case, and no attribute whose value, trimmed and lowercased, starts
  with \<open>javascript:\<close>, and its result is the document with exactly these elements (each
  with its subtree) and attributes taken out.
\<close>

lemma sanitizeSVGDocument_without_template:
  assumes "well_formed doc" and "no_template doc"
  shows "sanitizeSVGDocument h doc = sanitized_spec h doc
       \<and> (\<forall>e \<in> set (all_elements (sanitizeSVGDocument h doc)).
            tagName e \<noteq> ''script'' \<and> tagName e \<noteq> ''foreignObject''
            \<and> (\<forall>a \<in> set (attributes e). \<not> on_name a \<and> \<not> javascript_value h a))"
proof -
  have eq: "sanitizeSVGDocument h doc = sanitized_spec h doc"
    using assms by (simp add: sanitizeSVGDocument_def sanitize_passes_fuse)
  show ?thesis
    unfolding eq
    using safe_attrs_sanitized_spec [of _ h doc] no_tag_all_elements_sanitized_spec [of _ h doc]
    by (auto simp: unsafe_attr_def)
qed

lemma sanitize_unsafe_doc:
  "well_formed unsafe_doc \<and> no_template unsafe_doc
   \<and> sanitizeSVGDocument (sample_host []) unsafe_doc =
       [Element None ''svg'' []
          [Element None ''rect'' [plain_attr ''width'' ''10'', plain_attr ''height'' ''10''] [],
           Element None ''a'' [plain_attr ''id'' ''k''] []]]"
proof -
  have wf: "well_formed unsafe_doc" "no_template unsafe_doc"
    by (simp_all add: unsafe_doc_def plain_attr_def attr_name_def is_template_def)
  have "sanitized_spec (sample_host []) unsafe_doc =
       [Element None ''svg'' []
          [Element None ''rect'' [plain_attr ''width'' ''10'', plain_attr ''height'' ''10''] [],
           Element None ''a'' [plain_attr ''id'' ''k''] []]]"
    by (simp add: unsafe_doc_def plain_attr_def attr_name_def unsafe_attr_def on_name_def
          javascript_value_def startsWith_def sample_host_def ascii_trim_def ascii_lowercase_def
          is_space_def)
  with wf sanitizeSVGDocument_without_template [OF wf, of "sample_host []"]
  show ?thesis by simp
qed

lemma xml_of_template: "xml_of template_doc = template_text"
  by (simp add: template_doc_def template_text_def plain_attr_def xmlns_attr_def attr_name_def
        xhtml_def)

lemma sanitize_template_doc:
  "sanitizeSVGDocument (sample_host docs) template_doc = template_doc"
  by (simp add: sanitizeSVGDocument_def template_doc_def matches_def is_template_def
        sanitize_attributes_def sanitize_attr_def on_name_def javascript_value_def
        xmlns_attr_def attr_name_def xhtml_def sample_host_def startsWith_def ascii_trim_def
        ascii_lowercase_def is_space_def)

lemma load_template_text:
  "svgElement (loadFromTextOrUrl (sample_host [template_doc]) template_text initial_state)
     = documentElement template_doc"
proof -
  have m: "startsWith template_text ''<svg''"
    by (simp add: startsWith_def template_text_def)
  have p: "parseSVGText (sample_host [template_doc]) template_text = Inr template_doc"
    by (simp add: parseSVGText_def sample_host_def parse_known_def xml_of_template)
       (simp add: querySelector_def template_doc_def matches_def is_template_def)
  have r: "svgElement (case renderSVGDocument h template_doc st of
              (None, st') \<Rightarrow> st' | (Some e, st') \<Rightarrow> setStatus (ParseFailed e) st')
         = documentElement template_doc" for h st
    by (simp add: renderSVGDocument_def template_doc_def Let_def setStatus_def adjustFit_def
          applyTransform_def split: option.splits)
  show ?thesis
    by (simp add: loadFromTextOrUrl_def m parse_sanitize_render_def p sanitize_template_doc r)
qed

text \<open>
  Claim C1 says that the sanitizer removes every \<open>script\<close> element and every attribute
  whose name starts with \<open>on\<close> from every parsed document. The code leaves them in the
  contents of a template element of the XHTML namespace, which its selectors do not
  reach: the document of the text above comes out of the sanitizer as it went in, with
  the \<open>script\<close> element and the \<open>onclick\<close> attribute, where the claim has the template
  emptied of the script and the \<open>b\<close> element without attribute; and the file exported
  after loading the text is the text itself.
\<close>

theorem sanitizeSVGDocument_keeps_template_contents:
  "sanitizeSVGDocument (sample_host [template_doc]) template_doc = template_doc
   \<and> map tagName (all_elements (sanitizeSVGDocument (sample_host [template_doc]) template_doc))
       = [''svg'', ''template'', ''script'', ''b'']
   \<and> sanitized_spec (sample_host [template_doc]) template_doc =
       [Element None ''svg'' []
          [Element (Some xhtml) ''template'' [xmlns_attr xhtml]
             [Element (Some xhtml) ''b'' [] []]]]
   \<and> fst (downloadClean (sample_host [template_doc])
            (loadFromTextOrUrl (sample_host [template_doc]) template_text initial_state))
       = Some template_text"
proof -
  have a: "map tagName (all_elements template_doc) = [''svg'', ''template'', ''script'', ''b'']"
    by (simp add: template_doc_def)
  have b: "sanitized_spec (sample_host [template_doc]) template_doc =
       [Element None ''svg'' []
          [Element (Some xhtml) ''template'' [xmlns_attr xhtml]
             [Element (Some xhtml) ''b'' [] []]]]"
    by (simp add: template_doc_def unsafe_attr_def on_name_def javascript_value_def
          plain_attr_def xmlns_attr_def attr_name_def xhtml_def sample_host_def startsWith_def
          ascii_trim_def ascii_lowercase_def is_space_def)
  have c: "serializeToString (sample_host [template_doc]) (Element None ''svg'' []
        [Element (Some xhtml) ''template'' [xmlns_attr xhtml]
           [Element (Some xhtml) ''script'' [] [CharData ''alert(1)''],
            Element (Some xhtml) ''b'' [plain_attr ''onclick'' ''x''] []]]) = template_text"
    using xml_of_template by (simp add: sample_host_def template_doc_def)
  have d: "fst (downloadClean (sample_host [template_doc])
            (loadFromTextOrUrl (sample_host [template_doc]) template_text initial_state))
       = Some template_text"
    using c by (simp add: downloadClean_def load_template_text) (simp add: template_doc_def)
  show ?thesis
    by (simp add: sanitize_template_doc a b d)
qed

section \<open>Parsing\<close>

lemma querySelectorAll_filter:
  "querySelectorAll sel doc = filter (\<lambda>e. matches sel (tagName e)) (querySelectorAll ''*'' doc)"
  by (induction sel doc rule: querySelectorAll.induct) (auto simp: matches_def)

lemma querySelector_Some_iff:
  assumes "sel \<noteq> ''*''"
  shows "(querySelector sel doc \<noteq> None)
       = (\<exists>e \<in> set (querySelectorAll ''*'' doc). tagName e = sel)"
proof -
  have "(querySelector sel doc \<noteq> None) = (querySelectorAll sel doc \<noteq> [])"
    by (simp add: querySelector_def split: list.splits)
  also have "\<dots> = (\<exists>e \<in> set (querySelectorAll ''*'' doc). matches sel (tagName e))"
    by (subst querySelectorAll_filter) (simp add: filter_empty_conv)
  finally show ?thesis
    using assms by (auto simp: matches_def)
qed

text \<open>
  Claim C6, as the code has it. \<open>parseSVGText\<close> fails, with the error "not a valid SVG",
  exactly when the document the XML parser returns has an element named \<open>parsererror\<close>
  that \<^verbatim>\<open>querySelector\<close> reaches, whether the parser put it there to report an error or
  the text has it; otherwise it returns the parsed document.
\<close>

theorem parseSVGText_fails_iff_error_node:
  "parseSVGText h text =
     (if \<exists>e \<in> set (querySelectorAll ''*'' (parseFromString h text)). tagName e = ''parsererror''
      then Inl NotValidSVG
      else Inr (parseFromString h text))"
  using querySelector_Some_iff [of "''parsererror''" "parseFromString h text"]
  by (simp add: parseSVGText_def Let_def)

lemma xml_of_sized: "xml_of sized_doc = sized_text"
  by (simp add: sized_doc_def sized_text_def plain_attr_def attr_name_def)

lemma sample_parse_sized: "parseFromString (sample_host [sized_doc]) sized_text = sized_doc"
  by (simp add: sample_host_def parse_known_def xml_of_sized)

theorem parseSVGText_fails_iff_error_node_witness:
  "parseSVGText (sample_host [sized_doc]) ''<svg'' = Inl NotValidSVG
   \<and> (\<exists>e \<in> set (querySelectorAll ''*'' (parseFromString (sample_host [sized_doc]) ''<svg'')).
         tagName e = ''parsererror'')
   \<and> parseSVGText (sample_host [sized_doc]) sized_text = Inr sized_doc"
proof -
  have bad: "parseFromString (sample_host [sized_doc]) ''<svg''
           = [Element None ''parsererror'' [] [CharData ''<svg'']]"
    by (simp add: sample_host_def parse_known_def xml_of_sized) (simp add: sized_text_def)
  have good: "\<not> (\<exists>e \<in> set (querySelectorAll ''*'' sized_doc). tagName e = ''parsererror'')"
    by (simp add: sized_doc_def matches_def)
  show ?thesis
    using parseSVGText_fails_iff_error_node [of "sample_host [sized_doc]" "''<svg''"]
      parseSVGText_fails_iff_error_node [of "sample_host [sized_doc]" sized_text]
      good
    by (simp add: bad sample_parse_sized matches_def)
qed

lemma xml_of_error_named: "xml_of error_named_doc = error_named_text"
  by (simp add: error_named_doc_def error_named_text_def)

text \<open>
  Claim C6 as stated fails: the parser reports no error in the well-formed text
  \<^verbatim>\<open><svg><parsererror/></svg>\<close> and returns its document, and \<open>parseSVGText\<close> fails on it.
\<close>

theorem parseSVGText_fails_without_parser_error:
  "parserReportsError (sample_host [error_named_doc]) ''<svg><parsererror/></svg>'' = False
   \<and> parseFromString (sample_host [error_named_doc]) ''<svg><parsererror/></svg>''
       = [Element None ''svg'' [] [Element None ''parsererror'' [] []]]
   \<and> parseSVGText (sample_host [error_named_doc]) ''<svg><parsererror/></svg>''
       = Inl NotValidSVG"
proof -
  have "parserReportsError (sample_host [error_named_doc]) error_named_text = False
   \<and> parseFromString (sample_host [error_named_doc]) error_named_text = error_named_doc"
    by (simp add: sample_host_def unknown_text_def parse_known_def xml_of_error_named)
  moreover have "querySelector ''parsererror'' error_named_doc \<noteq> None"
    by (simp add: querySelector_def error_named_doc_def matches_def is_template_def)
  ultimately have "parserReportsError (sample_host [error_named_doc]) error_named_text = False
   \<and> parseFromString (sample_host [error_named_doc]) error_named_text = error_named_doc
   \<and> parseSVGText (sample_host [error_named_doc]) error_named_text = Inl NotValidSVG"
    by (simp add: parseSVGText_def)
  then show ?thesis
    by (simp add: error_named_text_def error_named_doc_def)
qed

section \<open>Rendering and export\<close>

lemma setAttribute_absent:
  "\<not> hasAttribute qn as \<Longrightarrow>
   setAttribute qn v as
     = as @ [\<lparr>namespaceURI = None, prefix = None, localName = qn, attr_value = v\<rparr>]"
  by (induction as) (auto simp: hasAttribute_def)

lemma mounted_adjustFit: "mounted (adjustFit st) = mounted st"
  by (simp add: adjustFit_def applyTransform_def)

text \<open>
  Claim C7, as the code has it. During render of a document whose root is not in the
  XHTML namespace: when the root has no \<open>viewBox\<close> attribute and has \<open>width\<close> and
  \<open>height\<close> attributes whose values are not empty and start with numbers \<open>w\<close> and \<open>h\<close>
  as \<^verbatim>\<open>parseFloat\<close> reads them, the rendered root (the copy put on the page) has the
  attributes of the root followed by a new attribute \<open>viewBox\<close> with the value
  \<open>0 0 w h\<close>; in every other case (a \<open>viewBox\<close> is there, or one of the two is missing,
  empty or does not start with a number) the rendered root has the attributes of the root.
\<close>

theorem render_synthesizes_viewBox:
  assumes "documentElement doc = Some (Element ens n as cs)" and "ens \<noteq> Some xhtml"
  shows "mounted (snd (renderSVGDocument h doc st)) =
    [Element ens n
       (case (hasAttribute ''viewBox'' as, numeric_attr h ''width'' as,
              numeric_attr h ''height'' as) of
          (False, Some w, Some hh) \<Rightarrow>
             as @ [\<lparr>namespaceURI = None, prefix = None, localName = ''viewBox'',
                     attr_value = ''0 0 '' @ numberToString h w @ '' '' @ numberToString h hh\<rparr>]
        | _ \<Rightarrow> as) cs]"
  using assms
  by (auto simp: renderSVGDocument_def Let_def mounted_adjustFit setStatus_def numeric_attr_def
        setAttribute_absent page_name_def split: option.splits)

lemma documentElement_sized: "documentElement sized_doc = Some sized_root"
  by (simp add: sized_doc_def sized_root_def)

theorem render_synthesizes_viewBox_witness:
  "documentElement sized_doc =
     Some (Element None ''svg'' [plain_attr ''width'' ''100'', plain_attr ''height'' ''50'']
             [Element None ''circle'' [plain_attr ''r'' ''5''] []])
   \<and> None \<noteq> Some xhtml
   \<and> mounted (snd (renderSVGDocument (sample_host []) sized_doc initial_state)) =
       [Element None ''svg''
          [plain_attr ''width'' ''100'', plain_attr ''height'' ''50'',
           plain_attr ''viewBox'' ''0 0 100 50'']
          [Element None ''circle'' [plain_attr ''r'' ''5''] []]]"
proof -
  have d: "documentElement sized_doc =
     Some (Element None ''svg'' [plain_attr ''width'' ''100'', plain_attr ''height'' ''50'']
             [Element None ''circle'' [plain_attr ''r'' ''5''] []])"
    by (simp add: sized_doc_def)
  have n: "None \<noteq> Some xhtml" by simp
  show ?thesis
    using render_synthesizes_viewBox [OF d n, of "sample_host []" initial_state]
    by (simp add: d numeric_attr_def hasAttribute_def plain_attr_def attr_name_def
          sample_host_def decimal_parseFloat_def digit_value_def decimal_numberToString_def)
qed

text \<open>
  Claim C7 as stated fails: \<open>100px\<close> and \<open>12abc\<close> are not numeric values, and the
  rendered root of \<^verbatim>\<open><svg width="100px" height="12abc"/>\<close> is not left untouched but
  receives \<open>viewBox="0 0 100 12"\<close>.
\<close>

theorem render_adds_viewBox_for_values_with_units:
  "numeric_value ''100px'' = False \<and> numeric_value ''12abc'' = False
   \<and> mounted (snd (renderSVGDocument (sample_host [])
        [Element None ''svg'' [plain_attr ''width'' ''100px'', plain_attr ''height'' ''12abc''] []]
        initial_state)) =
       [Element None ''svg''
          [plain_attr ''width'' ''100px'', plain_attr ''height'' ''12abc'',
           plain_attr ''viewBox'' ''0 0 100 12''] []]"
  by (simp add: numeric_value_def digit_value_def renderSVGDocument_def Let_def
        mounted_adjustFit setStatus_def hasAttribute_def page_name_def plain_attr_def
        attr_name_def sample_host_def decimal_parseFloat_def decimal_numberToString_def)

text \<open>
  A root in the XHTML namespace is outside the statement above. Its copy is an HTML
  element of the page, the three attribute calls lowercase the names, and the copy
  receives an attribute \<open>viewbox\<close> although the root has a \<open>viewBox\<close>.
\<close>

lemma render_xhtml_root_adds_lowercase_viewbox:
  "mounted (snd (renderSVGDocument (sample_host []) xhtml_root_doc initial_state)) =
     [Element (Some xhtml) ''svg''
        [xmlns_attr xhtml, plain_attr ''viewBox'' ''0 0 10 10'', plain_attr ''width'' ''100'',
         plain_attr ''height'' ''50'', plain_attr ''viewbox'' ''0 0 100 50''] []]"
  by (simp add: xhtml_root_doc_def renderSVGDocument_def Let_def mounted_adjustFit setStatus_def
        hasAttribute_def page_name_def ascii_lowercase_def plain_attr_def xmlns_attr_def
        attr_name_def sample_host_def decimal_parseFloat_def digit_value_def
        decimal_numberToString_def)

lemma sized_text_markup: "startsWith sized_text ''<svg''"
  by (simp add: startsWith_def sized_text_def)

lemma no_error_node_sized: "querySelector ''parsererror'' sized_doc = None"
  by (simp add: querySelector_def sized_doc_def matches_def)

lemma sanitize_sized:
  assumes "\<not> startsWith (toLowerCase h (trim h ''100'')) ''javascript:''"
      and "\<not> startsWith (toLowerCase h (trim h ''50'')) ''javascript:''"
      and "\<not> startsWith (toLowerCase h (trim h ''5'')) ''javascript:''"
  shows "sanitizeSVGDocument h sized_doc = sized_doc"
  using assms
  by (simp add: sanitizeSVGDocument_def sized_doc_def matches_def sanitize_attributes_def
        sanitize_attr_def on_name_def javascript_value_def plain_attr_def attr_name_def)

lemma load_sized_text_state:
  assumes "parseFromString h sized_text = sized_doc"
      and "\<not> startsWith (toLowerCase h (trim h ''100'')) ''javascript:''"
      and "\<not> startsWith (toLowerCase h (trim h ''50'')) ''javascript:''"
      and "\<not> startsWith (toLowerCase h (trim h ''5'')) ''javascript:''"
      and "parseFloat h ''100'' = Fin 100" and "parseFloat h ''50'' = Fin 50"
      and "numberToString h (Fin 100) = ''100''" and "numberToString h (Fin 50) = ''50''"
  shows "loadFromTextOrUrl h sized_text st =
      st\<lparr>scale := Fin 1, tx := Fin 0, ty := Fin 0,
         svgElement := Some sized_root,
         mounted := [Element None ''svg''
              [plain_attr ''width'' ''100'', plain_attr ''height'' ''50'',
               plain_attr ''viewBox'' ''0 0 100 50'']
              [Element None ''circle'' [plain_attr ''r'' ''5''] []]],
         containerDisplay := Some ''inline-block'',
         transform := Some (Fin 0, Fin 0, Fin 1),
         placeholderDisplay := Some ''none'', status := Loaded,
         sourceArea := serializeToString h sized_root\<rparr>"
proof -
  have p: "parseSVGText h sized_text = Inr sized_doc"
    using assms(1) by (simp add: parseSVGText_def no_error_node_sized)
  have s: "sanitizeSVGDocument h sized_doc = sized_doc"
    using assms(2-4) by (rule sanitize_sized)
  have r: "renderSVGDocument h sized_doc (setStatus ParsingText st) =
      (None, st\<lparr>scale := Fin 1, tx := Fin 0, ty := Fin 0,
         svgElement := Some sized_root,
         mounted := [Element None ''svg''
              [plain_attr ''width'' ''100'', plain_attr ''height'' ''50'',
               plain_attr ''viewBox'' ''0 0 100 50'']
              [Element None ''circle'' [plain_attr ''r'' ''5''] []]],
         containerDisplay := Some ''inline-block'',
         transform := Some (Fin 0, Fin 0, Fin 1),
         placeholderDisplay := Some ''none'', status := Loaded,
         sourceArea := serializeToString h sized_root\<rparr>)"
    using assms(5-8)
    by (simp add: renderSVGDocument_def sized_doc_def sized_root_def Let_def hasAttribute_def
          page_name_def plain_attr_def attr_name_def adjustFit_def applyTransform_def
          setStatus_def)
  show ?thesis
    by (simp add: loadFromTextOrUrl_def sized_text_markup parse_sanitize_render_def p s r)
qed

lemma sample_host_reads_sized:
  "parseFromString (sample_host [sized_doc]) sized_text = sized_doc"
  "\<not> startsWith (toLowerCase (sample_host [sized_doc]) (trim (sample_host [sized_doc]) ''100''))
       ''javascript:''"
  "\<not> startsWith (toLowerCase (sample_host [sized_doc]) (trim (sample_host [sized_doc]) ''50''))
       ''javascript:''"
  "\<not> startsWith (toLowerCase (sample_host [sized_doc]) (trim (sample_host [sized_doc]) ''5''))
       ''javascript:''"
  "parseFloat (sample_host [sized_doc]) ''100'' = Fin 100"
  "parseFloat (sample_host [sized_doc]) ''50'' = Fin 50"
  "numberToString (sample_host [sized_doc]) (Fin 100) = ''100''"
  "numberToString (sample_host [sized_doc]) (Fin 50) = ''50''"
  by (simp_all add: sample_parse_sized)
     (simp_all add: sample_host_def startsWith_def ascii_trim_def ascii_lowercase_def is_space_def
        decimal_parseFloat_def digit_value_def decimal_numberToString_def)

lemma sample_serialize_sized: "serializeToString (sample_host docs) sized_root = sized_text"
  using xml_of_sized by (simp add: sample_host_def sized_root_def sized_doc_def)

text \<open>
  Claim C3, as the code has it. On a host that reads the text
  \<^verbatim>\<open><svg width="100" height="50"><circle r="5"/></svg>\<close> as the document it denotes,
  loading the text and then exporting yields the serialization of the loaded root, which
  carries \<open>width\<close> and \<open>height\<close> and no \<open>viewBox\<close>: the download and the source area are
  that serialization. The attribute \<open>viewBox="0 0 100 50"\<close> is on the copy put on the page
  and nowhere else.
\<close>

theorem load_sized_text_export:
  assumes "parseFromString h sized_text = sized_doc"
      and "\<not> startsWith (toLowerCase h (trim h ''100'')) ''javascript:''"
      and "\<not> startsWith (toLowerCase h (trim h ''50'')) ''javascript:''"
      and "\<not> startsWith (toLowerCase h (trim h ''5'')) ''javascript:''"
      and "parseFloat h ''100'' = Fin 100" and "parseFloat h ''50'' = Fin 50"
      and "numberToString h (Fin 100) = ''100''" and "numberToString h (Fin 50) = ''50''"
  shows "svgElement (loadFromTextOrUrl h sized_text st) = Some sized_root
       \<and> \<not> hasAttribute ''viewBox'' (attributes sized_root)
       \<and> fst (downloadClean h (loadFromTextOrUrl h sized_text st))
           = Some (serializeToString h sized_root)
       \<and> sourceArea (loadFromTextOrUrl h sized_text st) = serializeToString h sized_root
       \<and> mounted (loadFromTextOrUrl h sized_text st) =
           [Element None ''svg''
              [plain_attr ''width'' ''100'', plain_attr ''height'' ''50'',
               plain_attr ''viewBox'' ''0 0 100 50'']
              [Element None ''circle'' [plain_attr ''r'' ''5''] []]]"
  unfolding load_sized_text_state [OF assms]
  by (simp add: downloadClean_def setStatus_def sized_root_def hasAttribute_def plain_attr_def
        attr_name_def)

theorem load_sized_text_export_witness:
  "parseFromString (sample_host [sized_doc]) sized_text = sized_doc
   \<and> parseFloat (sample_host [sized_doc]) ''100'' = Fin 100
   \<and> numberToString (sample_host [sized_doc]) (Fin 50) = ''50''
   \<and> mounted (loadFromTextOrUrl (sample_host [sized_doc]) sized_text initial_state) =
           [Element None ''svg''
              [plain_attr ''width'' ''100'', plain_attr ''height'' ''50'',
               plain_attr ''viewBox'' ''0 0 100 50'']
              [Element None ''circle'' [plain_attr ''r'' ''5''] []]]
   \<and> sourceArea (loadFromTextOrUrl (sample_host [sized_doc]) sized_text initial_state)
       = sized_text"
  using load_sized_text_export [OF sample_host_reads_sized, of initial_state]
  by (simp add: sample_host_reads_sized sample_serialize_sized)

text \<open>
  Claim C3 as stated fails: the file exported after loading the text is the text itself,
  and its root has no \<open>viewBox\<close> attribute.
\<close>

theorem export_of_sized_text_has_no_viewBox:
  "fst (downloadClean (sample_host [sized_doc])
          (loadFromTextOrUrl (sample_host [sized_doc])
             ''<svg width=\"100\" height=\"50\"><circle r=\"5\"/></svg>'' initial_state))
     = Some ''<svg width=\"100\" height=\"50\"><circle r=\"5\"/></svg>''
   \<and> svgElement (loadFromTextOrUrl (sample_host [sized_doc])
             ''<svg width=\"100\" height=\"50\"><circle r=\"5\"/></svg>'' initial_state)
     = Some (Element None ''svg'' [plain_attr ''width'' ''100'', plain_attr ''height'' ''50'']
             [Element None ''circle'' [plain_attr ''r'' ''5''] []])
   \<and> hasAttribute ''viewBox'' [plain_attr ''width'' ''100'', plain_attr ''height'' ''50'']
     = False"
proof -
  have "fst (downloadClean (sample_host [sized_doc])
          (loadFromTextOrUrl (sample_host [sized_doc]) sized_text initial_state))
          = Some sized_text
        \<and> svgElement (loadFromTextOrUrl (sample_host [sized_doc]) sized_text initial_state)
          = Some sized_root"
    unfolding load_sized_text_state [OF sample_host_reads_sized]
    by (simp add: downloadClean_def sample_serialize_sized)
  then show ?thesis
    by (simp add: sized_text_def sized_root_def hasAttribute_def plain_attr_def attr_name_def)
qed

section \<open>Fit without a document\<close>

text \<open>
  Claim C10. When no document is loaded (\<open>svgElement\<close> is null), the fit operation leaves
  the whole state as it is: scale, translation and the applied transform included,
  whatever earlier zooming and panning made of them.
\<close>

theorem adjustFit_without_document:
  "svgElement st = None \<Longrightarrow> adjustFit st = st"
  by (simp add: adjustFit_def)

theorem adjustFit_without_document_witness:
  "svgElement zoomed_and_panned = None
   \<and> scale zoomed_and_panned = Fin (6 / 5)
   \<and> tx zoomed_and_panned = Fin 7
   \<and> ty zoomed_and_panned = Fin 3
   \<and> transform zoomed_and_panned = Some (Fin 7, Fin 3, Fin (6 / 5))
   \<and> adjustFit zoomed_and_panned = zoomed_and_panned"
proof -
  have n: "svgElement zoomed_and_panned = None"
    by (simp add: zoomed_and_panned_def run_def initial_state_def zoomIn_def setScale_def
          applyTransform_def pointerdown_def pointermove_def Let_def Math_max_def Math_min_def
          jsub_def)
  show ?thesis
    using adjustFit_without_document [OF n] n
    by (simp add: zoomed_and_panned_def run_def initial_state_def zoomIn_def setScale_def
          applyTransform_def pointerdown_def pointermove_def Let_def Math_max_def Math_min_def
          jsub_def)
qed

section \<open>Image inlining\<close>

lemma fst_inline_image:
  "fst (inline_image h k as) = k + (if needs_fetch as then 1 else 0)"
  by (simp add: inline_image_def needs_fetch_def split: option.splits fetch_outcome.splits)

lemma fst_inline_images:
  "fst (inline_images h k doc)
     = k + length (filter (\<lambda>e. needs_fetch (attributes e)) (querySelectorAll ''image'' doc))"
proof (induction h k doc rule: inline_images.induct)
  case (1 h k)
  then show ?case by simp
next
  case (2 h k s ns)
  then show ?case by (auto split: prod.splits)
next
  case (3 h k ens n as cs ns)
  obtain k1 as' where a: "(if n = ''image'' then inline_image h k as else (k, as)) = (k1, as')"
    by (cases "if n = ''image'' then inline_image h k as else (k, as)")
  obtain k2 cs' where
    c: "(if is_template ens n then (k1, cs) else inline_images h k1 cs) = (k2, cs')"
    by (cases "if is_template ens n then (k1, cs) else inline_images h k1 cs")
  obtain k3 ns' where n: "inline_images h k2 ns = (k3, ns')"
    by (cases "inline_images h k2 ns")
  have k1: "k1 = k + (if n = ''image'' \<and> needs_fetch as then 1 else 0)"
    using a fst_inline_image [of h k as] by (auto split: if_splits)
  have k2: "k2 = k1 + length (filter (\<lambda>e. needs_fetch (attributes e))
                     (if is_template ens n then [] else querySelectorAll ''image'' cs))"
  proof (cases "is_template ens n")
    case True
    with c show ?thesis by simp
  next
    case False
    with "3.IH"(1) [OF a [symmetric] refl False] c show ?thesis by simp
  qed
  have k3: "k3 = k2 + length (filter (\<lambda>e. needs_fetch (attributes e))
                     (querySelectorAll ''image'' ns))"
    using "3.IH"(2) [OF a [symmetric] refl c [symmetric] refl] n by simp
  show ?case
    using a c n k1 k2 k3 by (auto simp: matches_def)
qed

lemma inline_image_skip:
  "\<not> needs_fetch as \<Longrightarrow> inline_image h k as = (k, as)"
  by (auto simp: inline_image_def needs_fetch_def split: option.splits)

lemma inline_image_failure:
  "image_href as = Some u \<Longrightarrow> needs_fetch as \<Longrightarrow> \<forall>d. fetchDataUrl h k u \<noteq> Fetched d \<Longrightarrow>
   inline_image h k as = (Suc k, as)"
  by (auto simp: inline_image_def needs_fetch_def split: option.splits fetch_outcome.splits)

lemma inlineImgs_no_image:
  "svgElement st = Some el \<Longrightarrow> parseSVGText h (serializeToString h el) = Inr doc \<Longrightarrow>
   querySelectorAll ''image'' doc = [] \<Longrightarrow> inlineImgs h st = st\<lparr>status := NoImageToInline\<rparr>"
  by (simp add: inlineImgs_def setStatus_def)

text \<open>
  Claim C8. In the loop over the \<open>image\<close> elements, taken in document order: an element
  without \<open>href\<close> (none, or an empty one), or whose \<open>href\<close> starts with \<open>data:\<close>, is
  skipped, and no fetch is made for it; when the fetch fails (rejected by the network or
  by CORS, a status that is not OK, a read error) the attributes of the element stay as
  they were and the loop goes on with the nodes after it; every image that has an
  external \<open>href\<close> gets its fetch, whatever became of the fetches before it. When the
  working document has no \<open>image\<close> element, the handler sets the status to "no image to
  inline" and changes nothing else: no sanitizing, no rendering.
\<close>

theorem inlining_skips_and_survives_failures:
  "((image_href as1 = None \<or> image_href as1 = Some [] \<or>
      (\<exists>u. image_href as1 = Some u \<and> startsWith u ''data:''))
     \<longrightarrow> inline_image h k as1 = (k, as1))
   \<and> (image_href as2 = Some u2 \<and> u2 \<noteq> [] \<and> \<not> startsWith u2 ''data:''
        \<and> (\<forall>d. fetchDataUrl h k u2 \<noteq> Fetched d)
     \<longrightarrow> inline_image h k as2 = (Suc k, as2)
         \<and> snd (inline_images h k (Element ens ''image'' as2 cs # ns)) =
             Element ens ''image'' as2 (snd (inline_images h (Suc k) cs))
               # snd (inline_images h (fst (inline_images h (Suc k) cs)) ns))
   \<and> fst (inline_images h k doc)
       = k + length (filter (\<lambda>e. needs_fetch (attributes e)) (querySelectorAll ''image'' doc))
   \<and> (svgElement st = Some el \<and> parseSVGText h (serializeToString h el) = Inr doc'
        \<and> querySelectorAll ''image'' doc' = []
     \<longrightarrow> inlineImgs h st = st\<lparr>status := NoImageToInline\<rparr>)"
proof (intro conjI impI)
  assume "image_href as1 = None \<or> image_href as1 = Some [] \<or>
      (\<exists>u. image_href as1 = Some u \<and> startsWith u ''data:'')"
  then have "\<not> needs_fetch as1" by (auto simp: needs_fetch_def)
  then show "inline_image h k as1 = (k, as1)" by (rule inline_image_skip)
next
  assume a: "image_href as2 = Some u2 \<and> u2 \<noteq> [] \<and> \<not> startsWith u2 ''data:''
        \<and> (\<forall>d. fetchDataUrl h k u2 \<noteq> Fetched d)"
  then have nf: "needs_fetch as2" by (simp add: needs_fetch_def)
  show f: "inline_image h k as2 = (Suc k, as2)"
    using a nf by (simp add: inline_image_failure)
  show "snd (inline_images h k (Element ens ''image'' as2 cs # ns)) =
             Element ens ''image'' as2 (snd (inline_images h (Suc k) cs))
               # snd (inline_images h (fst (inline_images h (Suc k) cs)) ns)"
    by (simp add: f is_template_def split: prod.splits)
next
  show "fst (inline_images h k doc)
       = k + length (filter (\<lambda>e. needs_fetch (attributes e)) (querySelectorAll ''image'' doc))"
    by (rule fst_inline_images)
next
  assume "svgElement st = Some el \<and> parseSVGText h (serializeToString h el) = Inr doc'
        \<and> querySelectorAll ''image'' doc' = []"
  then show "inlineImgs h st = st\<lparr>status := NoImageToInline\<rparr>"
    by (simp add: inlineImgs_no_image)
qed

lemma inline_linked_doc:
  "inline_images (sample_host docs) 0 linked_doc = (3, inlined_doc)"
  by (simp add: is_template_def linked_doc_def inlined_doc_def inline_image_def image_href_def
        xlink_href_def
        plain_attr_def attr_name_def xmlns_xlink_def xlink_def startsWith_def sample_host_def
        one_image_net_def)

lemma parse_sized_root:
  "parseSVGText (sample_host [sized_doc]) (serializeToString (sample_host [sized_doc]) sized_root)
     = Inr sized_doc"
  by (simp add: sample_serialize_sized sample_parse_sized parseSVGText_def no_error_node_sized)

theorem inlining_skips_and_survives_failures_witness:
  "image_href [plain_attr ''href'' ''data:image/gif;base64,R0lGODlh'']
     = Some ''data:image/gif;base64,R0lGODlh''
   \<and> startsWith ''data:image/gif;base64,R0lGODlh'' ''data:''
   \<and> inline_image (sample_host [sized_doc]) 0 [plain_attr ''href'' ''data:image/gif;base64,R0lGODlh'']
       = (0, [plain_attr ''href'' ''data:image/gif;base64,R0lGODlh''])
   \<and> image_href [plain_attr ''href'' ''http://example.org/gone.png'']
       = Some ''http://example.org/gone.png''
   \<and> fetchDataUrl (sample_host [sized_doc]) 0 ''http://example.org/gone.png'' = HttpNotOk 404
   \<and> inline_image (sample_host [sized_doc]) 0 [plain_attr ''href'' ''http://example.org/gone.png'']
       = (1, [plain_attr ''href'' ''http://example.org/gone.png''])
   \<and> inline_images (sample_host [sized_doc]) 0 linked_doc = (3, inlined_doc)
   \<and> svgElement (initial_state\<lparr>svgElement := Some sized_root\<rparr>) = Some sized_root
   \<and> inlineImgs (sample_host [sized_doc]) (initial_state\<lparr>svgElement := Some sized_root\<rparr>)
       = initial_state\<lparr>svgElement := Some sized_root, status := NoImageToInline\<rparr>"
proof -
  have a: "image_href [plain_attr ''href'' ''data:image/gif;base64,R0lGODlh'']
     = Some ''data:image/gif;base64,R0lGODlh''"
    by (simp add: image_href_def plain_attr_def attr_name_def)
  have b: "startsWith ''data:image/gif;base64,R0lGODlh'' ''data:''"
    by (simp add: startsWith_def)
  have c: "image_href [plain_attr ''href'' ''http://example.org/gone.png'']
       = Some ''http://example.org/gone.png''"
    by (simp add: image_href_def plain_attr_def attr_name_def)
  have d: "fetchDataUrl (sample_host [sized_doc]) 0 ''http://example.org/gone.png'' = HttpNotOk 404"
    by (simp add: sample_host_def one_image_net_def)
  have e: "\<not> startsWith ''http://example.org/gone.png'' ''data:''"
    by (simp add: startsWith_def)
  have f: "querySelectorAll ''image'' sized_doc = []"
    by (simp add: sized_doc_def matches_def)
  show ?thesis
    using inlining_skips_and_survives_failures
      [where ?as1.0 = "[plain_attr ''href'' ''data:image/gif;base64,R0lGODlh'']"
         and ?as2.0 = "[plain_attr ''href'' ''http://example.org/gone.png'']"
         and ?u2.0 = "''http://example.org/gone.png''"
         and h = "sample_host [sized_doc]" and k = 0 and doc = linked_doc
         and st = "initial_state\<lparr>svgElement := Some sized_root\<rparr>" and el = sized_root
         and doc' = sized_doc and cs = "[]" and ns = "[]"]
    by (simp add: a b c d e f parse_sized_root inline_linked_doc)
qed

lemma getAttribute_append_absent:
  "getAttribute qn as = None \<Longrightarrow> getAttribute qn (as @ bs) = getAttribute qn bs"
  by (induction as) (auto split: if_splits)

lemma getAttributeNS_append_present:
  "getAttributeNS ns lname as = Some v \<Longrightarrow> getAttributeNS ns lname (as @ bs) = Some v"
  by (induction as) (auto split: if_splits)

text \<open>
  Claim C9. For an \<open>image\<close> element with an XLink \<open>href\<close> to an external resource and no
  plain \<open>href\<close> attribute, a fetch that succeeds appends a new plain \<open>href\<close> attribute with
  the data URI and leaves the XLink \<open>href\<close> in place, with the external address.
\<close>

theorem inlining_keeps_xlink_href:
  assumes "getAttribute ''href'' as = None"
      and "getAttributeNS xlink ''href'' as = Some u"
      and "u \<noteq> []" and "\<not> startsWith u ''data:''"
      and "fetchDataUrl h k u = Fetched d"
  shows "snd (inline_image h k as)
           = as @ [\<lparr>namespaceURI = None, prefix = None, localName = ''href'', attr_value = d\<rparr>]
       \<and> getAttribute ''href'' (snd (inline_image h k as)) = Some d
       \<and> getAttributeNS xlink ''href'' (snd (inline_image h k as)) = Some u"
proof -
  have h: "image_href as = Some u"
    using assms(1,2) by (simp add: image_href_def)
  have "\<not> hasAttribute ''href'' as"
    using assms(1) by (simp add: hasAttribute_def)
  then have s: "snd (inline_image h k as)
           = as @ [\<lparr>namespaceURI = None, prefix = None, localName = ''href'', attr_value = d\<rparr>]"
    using h assms(3-5) by (simp add: inline_image_def setAttribute_absent)
  show ?thesis
    unfolding s using assms(1,2)
    by (simp add: getAttribute_append_absent getAttributeNS_append_present attr_name_def)
qed

lemma reparse_linked:
  "parseSVGText (sample_host [linked_doc]) (serializeToString (sample_host [linked_doc]) linked_root)
     = Inr linked_doc"
  by (simp add: parseSVGText_def sample_host_def parse_known_def linked_doc_def linked_root_def
        querySelector_def matches_def)

lemma sanitize_inlined:
  "sanitizeSVGDocument (sample_host docs) inlined_doc = inlined_doc"
  by (simp add: sanitizeSVGDocument_def inlined_doc_def matches_def sanitize_attributes_def
        sanitize_attr_def on_name_def javascript_value_def plain_attr_def xlink_href_def
        xmlns_xlink_def xlink_def attr_name_def sample_host_def startsWith_def ascii_trim_def
        ascii_lowercase_def is_space_def)

lemma images_linked: "querySelectorAll ''image'' linked_doc \<noteq> []"
  by (simp add: is_template_def linked_doc_def matches_def)

lemma render_inlined:
  "fst (renderSVGDocument h inlined_doc st) = None
   \<and> svgElement (snd (renderSVGDocument h inlined_doc st)) = documentElement inlined_doc"
  by (simp add: renderSVGDocument_def inlined_doc_def Let_def setStatus_def adjustFit_def
        applyTransform_def split: option.splits)

lemma inlineImgs_linked:
  "svgElement (inlineImgs (sample_host [linked_doc]) (initial_state\<lparr>svgElement := Some linked_root\<rparr>))
     = documentElement inlined_doc
   \<and> status (inlineImgs (sample_host [linked_doc]) (initial_state\<lparr>svgElement := Some linked_root\<rparr>))
     = InlineAttemptDone"
proof -
  obtain st' where r: "renderSVGDocument (sample_host [linked_doc]) inlined_doc
      (setStatus InliningImages (initial_state\<lparr>svgElement := Some linked_root\<rparr>)) = (None, st')"
    and s: "svgElement st' = documentElement inlined_doc"
    using render_inlined [of "sample_host [linked_doc]"
        "setStatus InliningImages (initial_state\<lparr>svgElement := Some linked_root\<rparr>)"]
    by (cases "renderSVGDocument (sample_host [linked_doc]) inlined_doc
      (setStatus InliningImages (initial_state\<lparr>svgElement := Some linked_root\<rparr>))") auto
  show ?thesis
    using r s
    by (simp add: inlineImgs_def reparse_linked images_linked inline_linked_doc sanitize_inlined
          setStatus_def)
qed

theorem inlining_keeps_xlink_href_witness:
  "getAttribute ''href'' [xlink_href ''http://example.org/a.png''] = None
   \<and> getAttributeNS xlink ''href'' [xlink_href ''http://example.org/a.png'']
       = Some ''http://example.org/a.png''
   \<and> fetchDataUrl (sample_host [linked_doc]) 0 ''http://example.org/a.png''
       = Fetched ''data:image/png;base64,iVBORw0KGgo=''
   \<and> snd (inline_image (sample_host [linked_doc]) 0 [xlink_href ''http://example.org/a.png''])
       = [xlink_href ''http://example.org/a.png'',
          plain_attr ''href'' ''data:image/png;base64,iVBORw0KGgo='']
   \<and> svgElement (inlineImgs (sample_host [linked_doc])
                    (initial_state\<lparr>svgElement := Some linked_root\<rparr>))
       = documentElement inlined_doc"
proof -
  have a: "getAttribute ''href'' [xlink_href ''http://example.org/a.png''] = None"
    by (simp add: xlink_href_def attr_name_def)
  have b: "getAttributeNS xlink ''href'' [xlink_href ''http://example.org/a.png'']
       = Some ''http://example.org/a.png''"
    by (simp add: xlink_href_def)
  have c: "''http://example.org/a.png'' \<noteq> []" by simp
  have d: "\<not> startsWith ''http://example.org/a.png'' ''data:''"
    by (simp add: startsWith_def)
  have e: "fetchDataUrl (sample_host [linked_doc]) 0 ''http://example.org/a.png''
       = Fetched ''data:image/png;base64,iVBORw0KGgo=''"
    by (simp add: sample_host_def one_image_net_def)
  show ?thesis
    using inlining_keeps_xlink_href [OF a b c d e] a b e inlineImgs_linked
    by (simp add: plain_attr_def)
qed

section \<open>The scale and its bounds\<close>

lemmas handler_defs =
  run_def pointerdown_def pointermove_def pointerup_def pointercancel_def wheel_def
  zoomIn_def zoomOut_def setScale_def applyTransform_def Let_def Math_max_def Math_min_def
  jsub_def jgt_def signed_inf_def

lemma loaded_state:
  "loaded = initial_state\<lparr>svgElement := Some sized_root,
         mounted := [Element None ''svg''
              [plain_attr ''width'' ''100'', plain_attr ''height'' ''50'',
               plain_attr ''viewBox'' ''0 0 100 50'']
              [Element None ''circle'' [plain_attr ''r'' ''5''] []]],
         containerDisplay := Some ''inline-block'',
         transform := Some (Fin 0, Fin 0, Fin 1),
         placeholderDisplay := Some ''none'', status := Loaded,
         sourceArea := sized_text\<rparr>"
  unfolding loaded_def load_sized_text_state [OF sample_host_reads_sized]
  by (simp add: initial_state_def sample_serialize_sized)

lemma panned_state:
  "panned = loaded\<lparr>tx := Fin 10, isPanning := False, lastX := Fin 10,
       transform := Some (Fin 10, Fin 0, Fin 1)\<rparr>"
  by (simp add: panned_def loaded_state initial_state_def handler_defs map_delete_def)

lemma pinch_captured_state:
  "pinch_captured = panned\<lparr>pointers := [(1, Fin 50, Fin 0), (2, Fin 150, Fin 0)],
       pinchStart := Some \<lparr>pinch_dist = Fin 100, pinch_scale = Fin 1,
                            pinch_center = (Fin 100, Fin 0)\<rparr>\<rparr>"
  by (simp add: pinch_captured_def panned_state loaded_state initial_state_def handler_defs)

lemma clamp_cases:
  "jle (Fin (1 / 10)) (Math_max (Fin (1 / 10)) (Math_min (Fin 20) x))
     \<and> jle (Math_max (Fin (1 / 10)) (Math_min (Fin 20) x)) (Fin 20)
   \<or> isNaN (Math_max (Fin (1 / 10)) (Math_min (Fin 20) x))"
  by (cases x) (auto simp: Math_max_def Math_min_def)

lemma pointermove_bounds:
  "minScale (pointermove pid cx cy rl rt st) = minScale st
   \<and> maxScale (pointermove pid cx cy rl rt st) = maxScale st"
  by (simp add: pointermove_def Let_def applyTransform_def split: list.splits option.splits)

lemma pointermove_scale:
  "scale (pointermove pid cx cy rl rt st) = scale st
   \<or> (\<exists>x. scale (pointermove pid cx cy rl rt st)
            = Math_max (minScale st) (Math_min (maxScale st) x))"
  by (auto simp: pointermove_def Let_def applyTransform_def split: list.splits option.splits)

lemma clamped_or_NaN_dispatch:
  assumes "clamped_or_NaN st"
  shows "clamped_or_NaN (dispatch st ev)"
proof -
  have b: "minScale st = Fin (1 / 10)" "maxScale st = Fin 20"
    using assms by (simp_all add: clamped_or_NaN_def)
  have set: "clamped_or_NaN (setScale x st)" for x
    using clamp_cases [of x]
    by (simp add: setScale_def applyTransform_def clamped_or_NaN_def scale_clamped_def b)
  show ?thesis
  proof (cases ev)
    case (PointerMove pid cx cy rl rt)
    from pointermove_scale [of pid cx cy rl rt st]
    have "scale_clamped (pointermove pid cx cy rl rt st)
        \<or> isNaN (scale (pointermove pid cx cy rl rt st))"
    proof
      assume "scale (pointermove pid cx cy rl rt st) = scale st"
      then show ?thesis
        using assms pointermove_bounds [of pid cx cy rl rt st]
        by (auto simp: clamped_or_NaN_def scale_clamped_def)
    next
      assume "\<exists>x. scale (pointermove pid cx cy rl rt st)
                = Math_max (minScale st) (Math_min (maxScale st) x)"
      then obtain x where "scale (pointermove pid cx cy rl rt st)
                = Math_max (Fin (1 / 10)) (Math_min (Fin 20) x)"
        using b by auto
      then show ?thesis
        using clamp_cases [of x] pointermove_bounds [of pid cx cy rl rt st] b
        by (simp add: scale_clamped_def)
    qed
    then show ?thesis
      using pointermove_bounds [of pid cx cy rl rt st] b
      by (simp add: PointerMove clamped_or_NaN_def)
  next
    case (Wheel dy cx cy rl rt)
    show ?thesis
      using clamp_cases unfolding Wheel
      by (simp add: wheel_def Let_def applyTransform_def clamped_or_NaN_def scale_clamped_def b)
  next
    case (KeyDown key)
    have "clamped_or_NaN (keydown key st)"
      using set assms by (simp add: keydown_def Let_def)
    then show ?thesis by (simp add: KeyDown)
  next
    case (PointerDown pid cx cy)
    show ?thesis
      using assms by (auto simp: PointerDown pointerdown_def clamped_or_NaN_def scale_clamped_def)
  next
    case (PointerUp pid)
    show ?thesis
      using assms by (auto simp: PointerUp pointerup_def clamped_or_NaN_def scale_clamped_def)
  next
    case (PointerCancel pid)
    show ?thesis
      using assms
      by (auto simp: PointerCancel pointercancel_def clamped_or_NaN_def scale_clamped_def)
  next
    case ZoomInClick
    show ?thesis
      using set by (simp add: ZoomInClick zoomIn_def)
  next
    case ZoomOutClick
    show ?thesis
      using set by (simp add: ZoomOutClick zoomOut_def)
  next
    case FitViewClick
    show ?thesis
      using assms
      by (auto simp: FitViewClick adjustFit_def applyTransform_def clamped_or_NaN_def
            scale_clamped_def)
  qed
qed

lemma clamped_or_NaN_run:
  "clamped_or_NaN st \<Longrightarrow> clamped_or_NaN (run st evs)"
  unfolding run_def
  by (induction evs arbitrary: st) (simp_all add: clamped_or_NaN_dispatch)

lemma clamped_or_NaN_initial: "clamped_or_NaN initial_state"
  by (simp add: clamped_or_NaN_def scale_clamped_def initial_state_def)

text \<open>
  Claim C4 says that \<open>minScale <= scale <= maxScale\<close> holds after every zoom operation
  from the initial state. The code breaks it: two pointers are put down at one point
  and the second reports two moves without leaving it. The first move captures the
  anchor distance 0; at the second the ratio is 0 / 0, which is NaN, both clamps return
  NaN, and NaN becomes the scale, which no comparison bounds. The same happens when
  every move changes the coordinates: the second pointer moves onto the first (anchor
  distance 0), the first moves away (ratio infinite, scale 20), the second follows it
  (ratio 0 / 0). (By \<open>clamped_or_NaN_run\<close> this is the only way out of the range.)
\<close>

theorem pinch_at_one_point_breaks_clamp:
  "pinchStart (run initial_state (butlast coincident_pinch))
     = Some \<lparr>pinch_dist = Fin 0, pinch_scale = Fin 1, pinch_center = (Fin 5, Fin 5)\<rparr>
   \<and> scale (run initial_state coincident_pinch) = NaN
   \<and> \<not> scale_clamped (run initial_state coincident_pinch)
   \<and> pinchStart (run initial_state (take 3 crossing_pinch))
     = Some \<lparr>pinch_dist = Fin 0, pinch_scale = Fin 1, pinch_center = (Fin 5, Fin 5)\<rparr>
   \<and> scale (run initial_state (take 4 crossing_pinch)) = Fin 20
   \<and> scale (run initial_state crossing_pinch) = NaN
   \<and> \<not> scale_clamped (run initial_state crossing_pinch)"
  by (simp add: coincident_pinch_def crossing_pinch_def initial_state_def handler_defs
        scale_clamped_def)

section \<open>Zoom about an anchor\<close>

lemma anchor_formula:
  fixes s :: real
  assumes "s \<noteq> 0"
  shows "(ox + (t - a * (s' - s)) + s' * ((a - ox - t) / s) = a)
       = (s' = s \<or> ox + t = a * (1 - s))"
proof -
  have "(ox + (t - a * (s' - s)) + s' * ((a - ox - t) / s) = a)
      = ((s - s') * (ox + t - a * (1 - s)) = 0)"
    using assms by (simp add: field_simps)
  then show ?thesis by auto
qed

lemma wheel_tx:
  "tx (wheel dy cx cy rl rt st)
     = jsub (tx st) (jmul (jsub cx rl) (jsub (scale (wheel dy cx cy rl rt st)) (scale st)))"
  by (simp add: wheel_def Let_def applyTransform_def)

lemma wheel_keeps_anchor_iff:
  assumes "scale st = Fin s" and "s \<noteq> 0" and "tx st = Fin t"
      and "scale (wheel dy (Fin cx) cy (Fin rl) rt st) = Fin s'"
  shows "(fst (surface_pos (Fin ox, oy) (wheel dy (Fin cx) cy (Fin rl) rt st)
               (content_at (Fin ox, oy) st (Fin (cx - rl), my))) = Fin (cx - rl))
       = (s' = s \<or> ox + t = (cx - rl) * (1 - s))"
  using anchor_formula [OF assms(2), of ox t "cx - rl" s']
  by (simp add: surface_pos_def content_at_def wheel_tx assms jsub_def)

lemma wheel_in_on_unit_scale:
  assumes "scale st = Fin 1" and "minScale st = Fin (1 / 10)" and "maxScale st = Fin 20"
  shows "scale (wheel (Fin (- 1)) cx cy rl rt st) = Fin (27 / 25)"
  using assms by (simp add: handler_defs)

lemma no_origin_keeps_wheel_anchor:
  "\<not> (fst (surface_pos (Fin ox, oy) (wheel (Fin (- 1)) (Fin 100) (Fin 0) (Fin 0) (Fin 0) loaded)
              (content_at (Fin ox, oy) loaded (Fin 100, Fin 0))) = Fin 100
      \<and> fst (surface_pos (Fin ox, oy) (wheel (Fin (- 1)) (Fin 100) (Fin 0) (Fin 0) (Fin 0) panned)
              (content_at (Fin ox, oy) panned (Fin 100, Fin 0))) = Fin 100)"
proof -
  have l: "scale loaded = Fin 1" "tx loaded = Fin 0" "minScale loaded = Fin (1 / 10)"
      "maxScale loaded = Fin 20"
    by (simp_all add: loaded_state initial_state_def)
  have p: "scale panned = Fin 1" "tx panned = Fin 10" "minScale panned = Fin (1 / 10)"
      "maxScale panned = Fin 20"
    by (simp_all add: panned_state loaded_state initial_state_def)
  have "(fst (surface_pos (Fin ox, oy) (wheel (Fin (- 1)) (Fin 100) (Fin 0) (Fin 0) (Fin 0) loaded)
              (content_at (Fin ox, oy) loaded (Fin (100 - 0), Fin 0))) = Fin (100 - 0))
      = (27 / 25 = (1::real) \<or> ox + 0 = (100 - 0) * (1 - 1))"
    by (rule wheel_keeps_anchor_iff [OF l(1) _ l(2) wheel_in_on_unit_scale [OF l(1) l(3) l(4)]])
       simp
  moreover have "(fst (surface_pos (Fin ox, oy) (wheel (Fin (- 1)) (Fin 100) (Fin 0) (Fin 0) (Fin 0) panned)
              (content_at (Fin ox, oy) panned (Fin (100 - 0), Fin 0))) = Fin (100 - 0))
      = (27 / 25 = (1::real) \<or> ox + 10 = (100 - 0) * (1 - 1))"
    by (rule wheel_keeps_anchor_iff [OF p(1) _ p(2) wheel_in_on_unit_scale [OF p(1) p(3) p(4)]])
       simp
  ultimately show ?thesis by simp
qed

text \<open>
  Claim C2 says that the content point under the anchor is shown at the same place
  before and after a wheel or pinch zoom, from any view state. The code moves it as
  soon as the view has been panned: with the document loaded and the view panned by 10,
  the content point 90 is under the cursor at 100; after one wheel step at the cursor
  it is shown at 99.2, and after a pinch about the center 100 that triples the scale it
  is shown at 80. (By \<open>wheel_keeps_anchor_iff\<close> the point stays exactly when the scale
  does not change or \<open>org + t = anchor * (1 - scale)\<close>; by
  \<open>no_origin_keeps_wheel_anchor\<close> no transform origin makes both the fresh and the
  panned view keep it.)
\<close>

theorem zoom_moves_point_under_anchor:
  "scale panned = Fin 1 \<and> tx panned = Fin 10 \<and> ty panned = Fin 0
   \<and> content_at (Fin 0, Fin 0) panned (Fin 100, Fin 0) = (Fin 90, Fin 0)
   \<and> surface_pos (Fin 0, Fin 0) panned (Fin 90, Fin 0) = (Fin 100, Fin 0)
   \<and> scale (wheel (Fin (- 1)) (Fin 100) (Fin 0) (Fin 0) (Fin 0) panned) = Fin (27 / 25)
   \<and> tx (wheel (Fin (- 1)) (Fin 100) (Fin 0) (Fin 0) (Fin 0) panned) = Fin 2
   \<and> surface_pos (Fin 0, Fin 0) (wheel (Fin (- 1)) (Fin 100) (Fin 0) (Fin 0) (Fin 0) panned)
        (Fin 90, Fin 0) = (Fin (496 / 5), Fin 0)
   \<and> scale (pointermove 2 (Fin 350) (Fin 0) (Fin 0) (Fin 0) pinch_captured) = Fin 3
   \<and> tx (pointermove 2 (Fin 350) (Fin 0) (Fin 0) (Fin 0) pinch_captured) = Fin (- 190)
   \<and> surface_pos (Fin 0, Fin 0) (pointermove 2 (Fin 350) (Fin 0) (Fin 0) (Fin 0) pinch_captured)
        (Fin 90, Fin 0) = (Fin 80, Fin 0)"
  by (simp add: pinch_captured_state panned_state loaded_state initial_state_def handler_defs
        content_at_def surface_pos_def)

lemma pinch_anchor_offset:
  "scale (pointermove 2 (Fin 250) (Fin 0) (Fin 0) (Fin 0) (pinch_captured\<lparr>tx := Fin t\<rparr>)) = Fin 2
   \<and> fst (surface_pos (Fin 0, Fin 0)
            (pointermove 2 (Fin 250) (Fin 0) (Fin 0) (Fin 0) (pinch_captured\<lparr>tx := Fin t\<rparr>))
            (content_at (Fin 0, Fin 0) (pinch_captured\<lparr>tx := Fin t\<rparr>) (Fin 100, Fin 0)))
       = Fin (100 - t)"
  by (simp add: pinch_captured_state panned_state loaded_state initial_state_def handler_defs
        content_at_def surface_pos_def)

text \<open>
  Claim C5 says that a pinch whose anchor was captured at distance 100 with scale 1 and
  that moves to distance 200 gives the scale 2 and keeps the view anchored at the
  initial center of the gesture. The code gives the scale 2; the view is not anchored
  when it was panned before: with the translation 10 the content point 90 is under the
  center 100 at capture, and after the move it is shown at 90. (By
  \<open>pinch_anchor_offset\<close> the point under the center is shown at \<open>100 - t\<close> after the move,
  for every translation \<open>t\<close>: the view is anchored only when it was not panned.)
\<close>

theorem pinch_doubles_scale_and_moves_center:
  "pinchStart pinch_captured
     = Some \<lparr>pinch_dist = Fin 100, pinch_scale = Fin 1, pinch_center = (Fin 100, Fin 0)\<rparr>
   \<and> scale pinch_captured = Fin 1 \<and> tx pinch_captured = Fin 10
   \<and> content_at (Fin 0, Fin 0) pinch_captured (Fin 100, Fin 0) = (Fin 90, Fin 0)
   \<and> scale (pointermove 2 (Fin 250) (Fin 0) (Fin 0) (Fin 0) pinch_captured) = Fin 2
   \<and> tx (pointermove 2 (Fin 250) (Fin 0) (Fin 0) (Fin 0) pinch_captured) = Fin (- 90)
   \<and> surface_pos (Fin 0, Fin 0) (pointermove 2 (Fin 250) (Fin 0) (Fin 0) (Fin 0) pinch_captured)
        (Fin 90, Fin 0) = (Fin 90, Fin 0)"
  by (simp add: pinch_captured_state panned_state loaded_state initial_state_def handler_defs
        content_at_def surface_pos_def)

end
